theory Spec2Isabelle
  imports Complex_Main
begin

section \<open>Python values used by \<^verbatim>\<open>ESMF/api/grid.py\<close>\<close>

text \<open>
  Every exception the module can raise is a value.  \<open>NativeError\<close> is what a failing
  call into the native library raises (the bindings in \<^verbatim>\<open>ESMF.interface.cbindings\<close>
  are not part of the file under study).
\<close>

datatype py_error =
    GridArgumentError | GridItemAlreadyLinked | GridItemNotSupported
  | GridBoundsNotCreated | GridSingleStaggerloc | SerialMethod | MethodNotImplemented
  | TypeError | ValueError | IndexError | AttributeError | AssertionError | NativeError

datatype TypeKind = I4 | I8 | R4 | R8

datatype CoordSys = CART | SPH_DEG | SPH_RAD

datatype FileFormat = VTK | SCRIP | ESMFMESH | ESMFGRID | UGRID | GRIDSPEC

datatype GridItem = MASK | AREA | OtherItem int

text \<open>
  Stagger locations are plain integers in the source, from the table
  \<^verbatim>\<open>ESMF.api.constants.StaggerLoc\<close>, which is outside grid.py.  The three that grid.py
  names are given the values ESMF assigns them.
\<close>

definition CENTER :: int where "CENTER = 0"
definition CORNER :: int where "CORNER = 3"
definition CORNER_VFACE :: int where "CORNER_VFACE = 7"

subsection \<open>List indexing as Python does it\<close>

text \<open>\<^verbatim>\<open>xs[i]\<close>: a negative index counts from the end, anything else out of range raises.\<close>

definition py_index :: "nat \<Rightarrow> int \<Rightarrow> nat option" where
  "py_index n i =
     (if 0 \<le> i \<and> i < int n then Some (nat i)
      else if i < 0 \<and> - int n \<le> i then Some (nat (i + int n))
      else None)"

definition getitem_list :: "'a list \<Rightarrow> int \<Rightarrow> py_error + 'a" where
  "getitem_list xs i =
     (case py_index (length xs) i of None \<Rightarrow> Inl IndexError | Some k \<Rightarrow> Inr (xs ! k))"

definition setitem_list :: "'a list \<Rightarrow> int \<Rightarrow> 'a \<Rightarrow> py_error + 'a list" where
  "setitem_list xs i v =
     (case py_index (length xs) i of None \<Rightarrow> Inl IndexError | Some k \<Rightarrow> Inr (xs[k := v]))"

subsection \<open>numpy arrays\<close>

text \<open>
  An array is either owned by Python (\<open>Owned dtype shape data\<close>, what \<^verbatim>\<open>np.zeros\<close> and
  \<^verbatim>\<open>np.meshgrid\<close> build) or a view over a native buffer (\<open>View ptr dtype shape\<close>), whose
  cells live in the memory of the world below.  Cells are idealised as reals.
\<close>

datatype ndarray = Owned TypeKind "int list" "real list" | View nat TypeKind "int list"

definition np_all :: "int list \<Rightarrow> bool" where
  "np_all xs = list_all (\<lambda>x. x \<noteq> 0) xs"

text \<open>\<^verbatim>\<open>a - b\<close> on one-dimensional integer arrays, with numpy's broadcasting of length 1.\<close>

definition np_sub :: "int list \<Rightarrow> int list \<Rightarrow> py_error + int list" where
  "np_sub a b =
     (if length a = length b then Inr (map2 (-) a b)
      else if length b = 1 then Inr (map (\<lambda>x. x - hd b) a)
      else if length a = 1 then Inr (map (\<lambda>y. hd a - y) b)
      else Inl ValueError)"

text \<open>
  \<^verbatim>\<open>np.zeros(shape, dtype)\<close>.  A negative extent raises; \<^verbatim>\<open>shape=None\<close> is the
  zero-dimensional array of the numpy releases the module was written for (its constructor
  evaluates \<^verbatim>\<open>np.zeros(None)\<close> on every path).
\<close>

definition np_zeros :: "int list option \<Rightarrow> TypeKind \<Rightarrow> py_error + ndarray" where
  "np_zeros shape dt =
     (case shape of
        None \<Rightarrow> Inr (Owned dt [] [0])
      | Some shp \<Rightarrow>
          if list_ex (\<lambda>d. d < 0) shp then Inl ValueError
          else Inr (Owned dt shp (replicate (nat (prod_list shp)) 0)))"

text \<open>
  Modelled from the spec: \<^verbatim>\<open>ndarray_from_esmf\<close> (in \<^verbatim>\<open>ESMF.util.esmpyarray\<close>, outside
  grid.py) wraps the raw buffer a native getter returns as a non-owning view of the given
  element kind and shape.
\<close>

definition ndarray_from_esmf :: "nat \<Rightarrow> TypeKind \<Rightarrow> int list \<Rightarrow> ndarray" where
  "ndarray_from_esmf data dt shape = View data dt shape"

text \<open>
  \<^verbatim>\<open>np.meshgrid(..., indexing="ij")\<close> on axis vectors: the cells of each result,
  flattened in row-major order, and the common shape.
\<close>

definition meshgrid2 :: "TypeKind \<Rightarrow> real list \<Rightarrow> real list \<Rightarrow> ndarray \<times> ndarray" where
  "meshgrid2 dt a b =
     (let shp = [int (length a), int (length b)] in
      (Owned dt shp (concat (map (replicate (length b)) a)),
       Owned dt shp (concat (replicate (length a) b))))"

definition meshgrid3 ::
  "TypeKind \<Rightarrow> real list \<Rightarrow> real list \<Rightarrow> real list \<Rightarrow> ndarray \<times> ndarray \<times> ndarray"
where
  "meshgrid3 dt a b c =
     (let shp = [int (length a), int (length b), int (length c)] in
      (Owned dt shp (concat (map (replicate (length b * length c)) a)),
       Owned dt shp (concat (replicate (length a) (concat (map (replicate (length c)) b)))),
       Owned dt shp (concat (replicate (length a * length b) c))))"

section \<open>The Grid object, the world, and the native library\<close>

text \<open>
  The attributes of a \<^verbatim>\<open>Grid\<close>.  \<open>finalized\<close> is \<open>None\<close> while the attribute does not
  exist yet (it is the last one the constructor sets).  The lists are values here: no
  property below depends on two Grid objects sharing one list after a shallow copy.
  The dictionaries \<^verbatim>\<open>_meta\<close> and \<^verbatim>\<open>_ocgis\<close> are never read by the module and are left out.
\<close>

record grid =
  struct :: nat
  max_index :: "int list"
  rank :: nat
  ndims :: nat
  num_peri_dims :: int
  periodic_dim :: "int option"
  pole_dim :: "int option"
  coord_sys :: "CoordSys option"
  type_g :: TypeKind
  areatype :: TypeKind
  has_corners :: bool
  size_g :: "int list option list"
  staggerloc :: "bool list"
  lower_bounds :: "int list option list"
  upper_bounds :: "int list option list"
  coords :: "ndarray option list list"
  mask_g :: "ndarray option list"
  area :: "ndarray option list"
  finalized :: "bool option"

text \<open>
  A \<^verbatim>\<open>staggerloc\<close> argument is one location or an iterable of them; \<^verbatim>\<open>list(staggerloc)\<close>
  raises \<^verbatim>\<open>TypeError\<close> on the former, which the methods catch.
\<close>

datatype stagger_arg = Scalar int | Several "int list"

text \<open>The keyword arguments of the constructor, with \<open>None\<close> for an argument left out.\<close>

record grid_args =
  arg_max_index :: "int list option"
  arg_num_peri_dims :: "int option"
  arg_periodic_dim :: "int option"
  arg_pole_dim :: "int option"
  arg_coord_sys :: "CoordSys option"
  arg_coord_typekind :: "TypeKind option"
  arg_staggerloc :: "stagger_arg option"
  arg_filename :: "string option"
  arg_filetype :: "FileFormat option"
  arg_reg_decomp :: "int list option"
  arg_decompflag :: "int list option"
  arg_is_sphere :: "bool option"
  arg_add_corner_stagger :: "bool option"
  arg_add_user_area :: "bool option"
  arg_add_mask :: "bool option"
  arg_varname :: "string option"
  arg_coord_names :: "string list option"

text \<open>Native calls that change the native side, as recorded in the trace of the world.\<close>

datatype ncall =
    CallCreateNoPeriDim | CallCreate1PeriDim | CallCreateFromFile
  | CallAddCoord nat int | CallAddItem nat GridItem int | CallDestroy nat

text \<open>
  The world outside the Grid object: the state of the native library (of a type the
  module knows nothing about), the cells of the native buffers (buffer, then offset),
  the warnings issued so far, and the trace of native calls made so far.
\<close>

record 'n world =
  nstate :: 'n
  mem :: "nat \<Rightarrow> nat \<Rightarrow> real"
  warnings :: "string list"
  trace :: "ncall list"

text \<open>
  The native library is a parameter: grid.py reaches it through \<^verbatim>\<open>ESMF.api.esmpymanager\<close>,
  which is outside grid.py.  Calls that create, allocate or destroy transform the native
  state and may fail (\<open>None\<close>, \<open>False\<close>); getters read it and may fail.  A grid handle
  and a buffer are natural numbers.
\<close>

record 'n esmp =
  ESMP_GridCreateNoPeriDim ::
    "int list \<Rightarrow> CoordSys option \<Rightarrow> TypeKind option \<Rightarrow> 'n \<Rightarrow> nat option \<times> 'n"
  ESMP_GridCreate1PeriDim ::
    "int list \<Rightarrow> int option \<Rightarrow> int option \<Rightarrow> CoordSys option \<Rightarrow> TypeKind option
       \<Rightarrow> 'n \<Rightarrow> nat option \<times> 'n"
  ESMP_GridCreateFromFile ::
    "string \<Rightarrow> FileFormat \<Rightarrow> int list \<Rightarrow> grid_args \<Rightarrow> 'n \<Rightarrow> nat option \<times> 'n"
  ESMP_ScripInq :: "string \<Rightarrow> 'n \<Rightarrow> (nat \<times> int list) option"
  ESMP_GridspecInq :: "string \<Rightarrow> 'n \<Rightarrow> (nat \<times> nat \<times> int list) option"
  ESMP_GridAddCoord :: "nat \<Rightarrow> int \<Rightarrow> 'n \<Rightarrow> bool \<times> 'n"
  ESMP_GridAddItem :: "nat \<Rightarrow> GridItem \<Rightarrow> int \<Rightarrow> 'n \<Rightarrow> bool \<times> 'n"
  ESMP_GridGetCoordBounds :: "nat \<Rightarrow> int \<Rightarrow> 'n \<Rightarrow> (int list \<times> int list) option"
  ESMP_GridGetCoordPtr :: "nat \<Rightarrow> nat \<Rightarrow> int \<Rightarrow> 'n \<Rightarrow> nat option"
  ESMP_GridGetItem :: "nat \<Rightarrow> GridItem \<Rightarrow> int \<Rightarrow> 'n \<Rightarrow> nat option"
  ESMP_GridDestroy :: "nat \<Rightarrow> 'n \<Rightarrow> bool \<times> 'n"
  pet_count :: "'n \<Rightarrow> int"

section \<open>Methods as state transformers that may raise\<close>

text \<open>
  A method runs on the pair of its \<^verbatim>\<open>self\<close> and the world, and returns a value or the
  exception raised together with the pair as the method left it: an exception does not
  undo the assignments made before it.
\<close>

type_synonym ('n, 'a) py = "grid \<times> 'n world \<Rightarrow> (py_error + 'a) \<times> grid \<times> 'n world"

definition returnE :: "'a \<Rightarrow> ('n, 'a) py" where
  "returnE x = (\<lambda>s. (Inr x, s))"

definition raiseE :: "py_error \<Rightarrow> ('n, 'a) py" where
  "raiseE e = (\<lambda>s. (Inl e, s))"

definition bindE :: "('n, 'a) py \<Rightarrow> ('a \<Rightarrow> ('n, 'b) py) \<Rightarrow> ('n, 'b) py" where
  "bindE m f = (\<lambda>s. case m s of (Inl e, s') \<Rightarrow> (Inl e, s') | (Inr x, s') \<Rightarrow> f x s')"

definition thenE :: "('n, unit) py \<Rightarrow> ('n, 'b) py \<Rightarrow> ('n, 'b) py" where
  "thenE m k = bindE m (\<lambda>_. k)"

definition whenE :: "bool \<Rightarrow> ('n, unit) py \<Rightarrow> ('n, unit) py" where
  "whenE c m = (if c then m else returnE ())"

definition liftE :: "py_error + 'a \<Rightarrow> ('n, 'a) py" where
  "liftE r = (case r of Inl e \<Rightarrow> raiseE e | Inr x \<Rightarrow> returnE x)"

definition selfE :: "(grid \<Rightarrow> 'a) \<Rightarrow> ('n, 'a) py" where
  "selfE f = (\<lambda>(g, w). (Inr (f g), g, w))"

definition assignE :: "(grid \<Rightarrow> grid) \<Rightarrow> ('n, unit) py" where
  "assignE f = (\<lambda>(g, w). (Inr (), f g, w))"

definition warn :: "string \<Rightarrow> ('n, unit) py" where
  "warn msg = (\<lambda>(g, w). (Inr (), g, w\<lparr>warnings := warnings w @ [msg]\<rparr>))"

text \<open>A native getter: the exception to raise on failure is the caller's choice.\<close>

definition queryE :: "py_error \<Rightarrow> ('n \<Rightarrow> 'a option) \<Rightarrow> ('n, 'a) py" where
  "queryE err q =
     (\<lambda>(g, w). case q (nstate w) of None \<Rightarrow> (Inl err, g, w) | Some r \<Rightarrow> (Inr r, g, w))"

text \<open>A native call that changes the native side: it is traced, then it succeeds or raises.\<close>

definition callE :: "ncall \<Rightarrow> ('n \<Rightarrow> bool \<times> 'n) \<Rightarrow> ('n, unit) py" where
  "callE c f =
     (\<lambda>(g, w). case f (nstate w) of (ok, n') \<Rightarrow>
        ((if ok then Inr () else Inl NativeError), g,
         w\<lparr>nstate := n', trace := trace w @ [c]\<rparr>))"

text \<open>\<^verbatim>\<open>self.attr[i]\<close> and \<^verbatim>\<open>self._attr[i] = v\<close> on a list attribute.\<close>

definition getslot :: "(grid \<Rightarrow> 'a list) \<Rightarrow> int \<Rightarrow> ('n, 'a) py" where
  "getslot attr i = bindE (selfE attr) (\<lambda>xs. liftE (getitem_list xs i))"

definition setslot ::
  "(grid \<Rightarrow> 'a list) \<Rightarrow> (('a list \<Rightarrow> 'a list) \<Rightarrow> grid \<Rightarrow> grid) \<Rightarrow> int \<Rightarrow> 'a \<Rightarrow> ('n, unit) py"
where
  "setslot attr attr_update i v =
     bindE (selfE attr) (\<lambda>xs. bindE (liftE (setitem_list xs i v)) (\<lambda>xs'.
       assignE (attr_update (\<lambda>_. xs'))))"

text \<open>\<^verbatim>\<open>self.coords[stagger][d]\<close> and \<^verbatim>\<open>self._coords[stagger][d] = v\<close>.\<close>

definition getcoord :: "int \<Rightarrow> int \<Rightarrow> ('n, ndarray option) py" where
  "getcoord stagger d = bindE (getslot coords stagger) (\<lambda>row. liftE (getitem_list row d))"

definition setcoord :: "int \<Rightarrow> int \<Rightarrow> ndarray option \<Rightarrow> ('n, unit) py" where
  "setcoord stagger d v =
     bindE (getslot coords stagger) (\<lambda>row. bindE (liftE (setitem_list row d v)) (\<lambda>row'.
       setslot coords coords_update stagger row'))"

text \<open>
  \<^verbatim>\<open>a[...] = v\<close>: every cell of the array becomes \<open>v\<close>.  For a view the cells are the
  first \<open>prod shape\<close> cells of its buffer; for an owned array the result is the array
  to store back; \<^verbatim>\<open>None[...] = v\<close> raises \<^verbatim>\<open>TypeError\<close>.
\<close>

definition fill_cells :: "nat \<Rightarrow> nat \<Rightarrow> real \<Rightarrow> (nat \<Rightarrow> nat \<Rightarrow> real) \<Rightarrow> (nat \<Rightarrow> nat \<Rightarrow> real)" where
  "fill_cells p n v m = m(p := (\<lambda>k. if k < n then v else m p k))"

definition fill :: "ndarray option \<Rightarrow> real \<Rightarrow> ('n, ndarray option) py" where
  "fill a v =
     (case a of
        None \<Rightarrow> raiseE TypeError
      | Some (Owned dt shp cells) \<Rightarrow> returnE (Some (Owned dt shp (replicate (length cells) v)))
      | Some (View p dt shp) \<Rightarrow>
          (\<lambda>(g, w). (Inr (Some (View p dt shp)), g,
                     w\<lparr>mem := fill_cells p (nat (prod_list shp)) v (mem w)\<rparr>)))"

text \<open>The cells an array shows in a given world.\<close>

definition cells_of :: "'n world \<Rightarrow> ndarray \<Rightarrow> real list" where
  "cells_of w a =
     (case a of
        Owned dt shp cells \<Rightarrow> cells
      | View p dt shp \<Rightarrow> map (mem w p) [0 ..< nat (prod_list shp)])"

definition shape_of :: "ndarray \<Rightarrow> int list" where
  "shape_of a = (case a of Owned dt shp cells \<Rightarrow> shp | View p dt shp \<Rightarrow> shp)"

definition worldE :: "('n world \<Rightarrow> 'a) \<Rightarrow> ('n, 'a) py" where
  "worldE f = (\<lambda>(g, w). (Inr (f w), g, w))"

text \<open>A native call that creates a grid: traced, it returns the handle or raises.\<close>

definition createE :: "ncall \<Rightarrow> ('n \<Rightarrow> nat option \<times> 'n) \<Rightarrow> ('n, nat) py" where
  "createE c f =
     (\<lambda>(g, w). case f (nstate w) of (r, n') \<Rightarrow>
        ((case r of None \<Rightarrow> Inl NativeError | Some h \<Rightarrow> Inr h), g,
         w\<lparr>nstate := n', trace := trace w @ [c]\<rparr>))"

definition assertE :: "bool \<Rightarrow> ('n, unit) py" where
  "assertE c = (if c then returnE () else raiseE AssertionError)"

text \<open>A \<^verbatim>\<open>for\<close> loop over a list, and a list comprehension; both stop at the first raise.\<close>

fun forE :: "'a list \<Rightarrow> ('a \<Rightarrow> ('n, unit) py) \<Rightarrow> ('n, unit) py" where
  "forE [] body = returnE ()"
| "forE (x # xs) body = thenE (body x) (forE xs body)"

fun mapE :: "'a list \<Rightarrow> ('a \<Rightarrow> ('n, 'b) py) \<Rightarrow> ('n, 'b list) py" where
  "mapE [] f = returnE []"
| "mapE (x # xs) f = bindE (f x) (\<lambda>y. bindE (mapE xs f) (\<lambda>ys. returnE (y # ys)))"

section \<open>Helper methods\<close>

definition GridGetCoordBounds :: "'n esmp \<Rightarrow> py_error \<Rightarrow> int \<Rightarrow> ('n, int list \<times> int list) py" where
  "GridGetCoordBounds E err stagger =
     bindE (selfE struct) (\<lambda>h. queryE err (ESMP_GridGetCoordBounds E h stagger))"

text \<open>\<^verbatim>\<open>x.all()\<close> and \<^verbatim>\<open>x - y\<close> on list slots that may still hold \<^verbatim>\<open>None\<close>.\<close>

definition all_of :: "int list option \<Rightarrow> py_error + bool" where
  "all_of x = (case x of None \<Rightarrow> Inl AttributeError | Some xs \<Rightarrow> Inr (np_all xs))"

definition sub_of :: "int list option \<Rightarrow> int list option \<Rightarrow> py_error + int list" where
  "sub_of x y =
     (case x of None \<Rightarrow> Inl TypeError
      | Some a \<Rightarrow> (case y of None \<Rightarrow> Inl TypeError | Some b \<Rightarrow> np_sub a b))"

text \<open>
  \<^verbatim>\<open>_verify_grid_bounds_\<close> (lines 830-847).  First query: any failure of the native
  getter becomes \<^verbatim>\<open>GridBoundsNotCreated\<close>, then the bounds and their difference are
  stored.  Later queries: the three assertions compare the value of \<^verbatim>\<open>.all()\<close> on the
  stored array with the value of \<^verbatim>\<open>.all()\<close> on the fresh one.
\<close>

definition verify_grid_bounds :: "'n esmp \<Rightarrow> int \<Rightarrow> ('n, unit) py" where
  "verify_grid_bounds E stagger =
     bindE (getslot lower_bounds stagger) (\<lambda>cached.
     if cached = None then
       bindE (GridGetCoordBounds E GridBoundsNotCreated stagger) (\<lambda>(lb, ub).
       thenE (setslot lower_bounds lower_bounds_update stagger (Some lb))
      (thenE (setslot upper_bounds upper_bounds_update stagger (Some ub))
      (bindE (getslot upper_bounds stagger) (\<lambda>u.
       bindE (getslot lower_bounds stagger) (\<lambda>l.
       bindE (liftE (sub_of u l)) (\<lambda>sz.
       setslot size_g size_g_update stagger (Some sz)))))))
     else
       bindE (GridGetCoordBounds E NativeError stagger) (\<lambda>(lb, ub).
       bindE (getslot lower_bounds stagger) (\<lambda>l.
       bindE (liftE (all_of l)) (\<lambda>al.
       thenE (assertE (al = np_all lb))
      (bindE (getslot upper_bounds stagger) (\<lambda>u.
       bindE (liftE (all_of u)) (\<lambda>au.
       thenE (assertE (au = np_all ub))
      (bindE (getslot size_g stagger) (\<lambda>s.
       bindE (liftE (all_of s)) (\<lambda>as.
       bindE (liftE (np_sub ub lb)) (\<lambda>d.
       assertE (as = np_all d))))))))))))"

definition set_has_corners :: "int \<Rightarrow> ('n, unit) py" where
  "set_has_corners stagger =
     whenE (stagger = CORNER \<or> stagger = CORNER_VFACE) (assignE (has_corners_update (\<lambda>_. True)))"

text \<open>\<^verbatim>\<open>_link_coord_buffer_\<close> (lines 912-923).\<close>

definition link_coord_buffer :: "'n esmp \<Rightarrow> nat \<Rightarrow> int \<Rightarrow> ('n, unit) py" where
  "link_coord_buffer E coord_dim stagger =
     bindE (selfE struct) (\<lambda>h.
     bindE (queryE NativeError (ESMP_GridGetCoordPtr E h coord_dim stagger)) (\<lambda>data.
     bindE (GridGetCoordBounds E NativeError stagger) (\<lambda>(lb, ub).
     bindE (selfE type_g) (\<lambda>t.
     bindE (liftE (np_sub ub lb)) (\<lambda>shape.
     thenE (setcoord stagger (int coord_dim) (Some (ndarray_from_esmf data t shape)))
           (set_has_corners stagger))))))"

text \<open>
  One axis of \<^verbatim>\<open>_link_coord_buffer_1Dcoords\<close>:
  \<^verbatim>\<open>ndarray_from_esmf(ESMP_GridGetCoordPtr(self, d, stagger), self.type, ((ub - lb)[d],))\<close>.
\<close>

definition axis_view :: "'n esmp \<Rightarrow> nat \<Rightarrow> int \<Rightarrow> int list \<Rightarrow> int list \<Rightarrow> ('n, ndarray) py" where
  "axis_view E d stagger lb ub =
     bindE (selfE struct) (\<lambda>h.
     bindE (queryE NativeError (ESMP_GridGetCoordPtr E h d stagger)) (\<lambda>data.
     bindE (selfE type_g) (\<lambda>t.
     bindE (liftE (np_sub ub lb)) (\<lambda>diff.
     bindE (liftE (getitem_list diff (int d))) (\<lambda>n.
     returnE (ndarray_from_esmf data t [n]))))))"

text \<open>\<^verbatim>\<open>_link_coord_buffer_1Dcoords\<close> (lines 925-946).\<close>

definition link_coord_buffer_1Dcoords :: "'n esmp \<Rightarrow> int \<Rightarrow> ('n, unit) py" where
  "link_coord_buffer_1Dcoords E stagger =
     bindE (GridGetCoordBounds E NativeError stagger) (\<lambda>(lb, ub).
     bindE (axis_view E 0 stagger lb ub) (\<lambda>gc0.
     bindE (axis_view E 1 stagger lb ub) (\<lambda>gc1.
     bindE (selfE rank) (\<lambda>r.
     bindE (selfE type_g) (\<lambda>t.
     bindE (if r = 3 then
              bindE (axis_view E 2 stagger lb ub) (\<lambda>gc2.
              worldE (\<lambda>w. case meshgrid3 t (cells_of w gc0) (cells_of w gc1) (cells_of w gc2) of
                             (gc00, gc11, gc22) \<Rightarrow> (gc00, gc11, Some gc22)))
            else if r = 2 then
              worldE (\<lambda>w. case meshgrid2 t (cells_of w gc0) (cells_of w gc1) of
                             (gc00, gc11) \<Rightarrow> (gc00, gc11, None))
            else raiseE ValueError) (\<lambda>(gc00, gc11, gc22).
     thenE (setcoord stagger 0 (Some gc00))
    (thenE (setcoord stagger 1 (Some gc11))
    (thenE (whenE (r = 3) (setcoord stagger 2 gc22))
           (set_has_corners stagger)))))))))"

text \<open>\<^verbatim>\<open>_link_item_buffer_\<close> (lines 948-970).\<close>

definition link_item_buffer :: "'n esmp \<Rightarrow> GridItem \<Rightarrow> int \<Rightarrow> ('n, unit) py" where
  "link_item_buffer E item stagger =
     bindE (selfE struct) (\<lambda>h.
     bindE (queryE NativeError (ESMP_GridGetItem E h item stagger)) (\<lambda>data.
     bindE (GridGetCoordBounds E NativeError stagger) (\<lambda>(lb, ub).
     if item = MASK then
       bindE (liftE (np_sub ub lb)) (\<lambda>shape.
       setslot mask_g mask_g_update stagger (Some (ndarray_from_esmf data I4 shape)))
     else if item = AREA then
       bindE (liftE (np_sub ub lb)) (\<lambda>shape.
       setslot area area_update stagger (Some (ndarray_from_esmf data R8 shape)))
     else raiseE GridItemNotSupported)))"

text \<open>\<^verbatim>\<open>self._coords[stagger][d] = np.zeros(shape=(self.size[stagger]), dtype=...)\<close>.\<close>

definition zero_coord :: "int \<Rightarrow> int \<Rightarrow> ('n, unit) py" where
  "zero_coord stagger d =
     bindE (getslot size_g stagger) (\<lambda>sz.
     bindE (selfE type_g) (\<lambda>t.
     bindE (liftE (np_zeros sz t)) (\<lambda>z.
     setcoord stagger d (Some z))))"

text \<open>\<^verbatim>\<open>self._coords[stagger][d][...] = 0\<close>.\<close>

definition fill_coord :: "int \<Rightarrow> int \<Rightarrow> ('n, unit) py" where
  "fill_coord stagger d =
     bindE (getcoord stagger d) (\<lambda>a. bindE (fill a 0) (\<lambda>a'. setcoord stagger d a'))"

text \<open>\<^verbatim>\<open>_allocate_coords_\<close> (lines 849-880).\<close>

definition allocate_coords :: "'n esmp \<Rightarrow> int \<Rightarrow> bool \<Rightarrow> ('n, unit) py" where
  "allocate_coords E stagger from_file =
     thenE (verify_grid_bounds E stagger)
    (thenE (zero_coord stagger 0)
    (thenE (zero_coord stagger 1)
    (bindE (selfE rank) (\<lambda>r.
     thenE (whenE (r = 3) (zero_coord stagger 2))
    (bindE (selfE ndims) (\<lambda>nd.
     thenE (if nd = r \<or> nd = 0 then
              forE [0 ..< r] (\<lambda>xyz. link_coord_buffer E xyz stagger)
            else if nd < r then
              (if \<not> nd = 1 then raiseE ValueError else link_coord_buffer_1Dcoords E stagger)
            else returnE ())
           (whenE (\<not> from_file)
             (thenE (fill_coord stagger 0)
             (thenE (fill_coord stagger 1)
                    (whenE (r = 3) (fill_coord stagger 2)))))))))))"

text \<open>\<^verbatim>\<open>self._mask[stagger][...] = v\<close> and the same for the area.\<close>

definition fill_slot ::
  "(grid \<Rightarrow> ndarray option list) \<Rightarrow>
   ((ndarray option list \<Rightarrow> ndarray option list) \<Rightarrow> grid \<Rightarrow> grid) \<Rightarrow> int \<Rightarrow> real \<Rightarrow> ('n, unit) py"
where
  "fill_slot attr attr_update stagger v =
     bindE (getslot attr stagger) (\<lambda>a. bindE (fill a v) (\<lambda>a'. setslot attr attr_update stagger a'))"

text \<open>\<^verbatim>\<open>_allocate_items_\<close> (lines 882-910).\<close>

definition allocate_items :: "'n esmp \<Rightarrow> GridItem \<Rightarrow> int \<Rightarrow> bool \<Rightarrow> ('n, unit) py" where
  "allocate_items E item stagger from_file =
     thenE (verify_grid_bounds E stagger)
    (thenE (if item = MASK then
              bindE (getslot size_g stagger) (\<lambda>sz.
              bindE (liftE (np_zeros sz I4)) (\<lambda>z.
              setslot mask_g mask_g_update stagger (Some z)))
            else if item = AREA then
              bindE (getslot size_g stagger) (\<lambda>sz.
              bindE (liftE (np_zeros sz R8)) (\<lambda>z.
              setslot area area_update stagger (Some z)))
            else raiseE GridItemNotSupported)
    (thenE (link_item_buffer E item stagger)
           (whenE (\<not> from_file)
             (if item = MASK then fill_slot mask_g mask_g_update stagger 1
              else if item = AREA then fill_slot area area_update stagger 0
              else raiseE GridItemNotSupported))))"

section \<open>Public methods\<close>

text \<open>The normalisation of a \<^verbatim>\<open>staggerloc\<close> argument at the head of both \<^verbatim>\<open>add_\<close> methods.\<close>

definition stagger_list :: "stagger_arg option \<Rightarrow> int list" where
  "stagger_list a =
     (case a of None \<Rightarrow> [CENTER] | Some (Scalar s) \<Rightarrow> [s] | Some (Several ss) \<Rightarrow> ss)"

definition GridAddCoord :: "'n esmp \<Rightarrow> int \<Rightarrow> ('n, unit) py" where
  "GridAddCoord E stagger =
     bindE (selfE struct) (\<lambda>h. callE (CallAddCoord h stagger) (ESMP_GridAddCoord E h stagger))"

definition GridAddItem :: "'n esmp \<Rightarrow> GridItem \<Rightarrow> int \<Rightarrow> ('n, unit) py" where
  "GridAddItem E item stagger =
     bindE (selfE struct) (\<lambda>h.
       callE (CallAddItem h item stagger) (ESMP_GridAddItem E h item stagger))"

definition GridDestroy :: "'n esmp \<Rightarrow> ('n, unit) py" where
  "GridDestroy E = bindE (selfE struct) (\<lambda>h. callE (CallDestroy h) (ESMP_GridDestroy E h))"

text \<open>The body of the loop of \<^verbatim>\<open>add_coords\<close> (lines 633-645).\<close>

definition add_coords_step :: "'n esmp \<Rightarrow> bool \<Rightarrow> int \<Rightarrow> ('n, unit) py" where
  "add_coords_step E from_file stagger =
     bindE (getcoord stagger 0) (\<lambda>c.
     if c \<noteq> None then warn ''This coordinate has already been added.''
     else
       thenE (whenE (\<not> from_file) (GridAddCoord E stagger))
      (thenE (allocate_coords E stagger from_file)
             (setslot staggerloc staggerloc_update stagger True)))"

text \<open>\<^verbatim>\<open>add_coords\<close> (lines 605-648); a method that falls off its end returns \<^verbatim>\<open>None\<close>.\<close>

definition add_coords ::
  "'n esmp \<Rightarrow> stagger_arg option \<Rightarrow> int option \<Rightarrow> bool \<Rightarrow> ('n, ndarray option) py"
where
  "add_coords E stagger_arg coord_dim from_file =
     (let sl = stagger_list stagger_arg in
      thenE (forE sl (add_coords_step E from_file))
        (case coord_dim of
           None \<Rightarrow> returnE None
         | Some d \<Rightarrow> if length sl = 1 then getcoord (hd sl) d else returnE None))"

text \<open>
  The body of the loop of \<^verbatim>\<open>add_item\<close> (lines 682-701).  The check yields the value of
  the local \<^verbatim>\<open>done\<close>, which both branches that do not raise set to \<^verbatim>\<open>False\<close>.
\<close>

definition add_item_step :: "'n esmp \<Rightarrow> GridItem \<Rightarrow> bool \<Rightarrow> int \<Rightarrow> ('n, unit) py" where
  "add_item_step E item from_file stagger =
     bindE (if item = MASK then
              bindE (getslot mask_g stagger) (\<lambda>m.
              if m \<noteq> None then raiseE GridItemAlreadyLinked else returnE False)
            else if item = AREA then
              bindE (getslot area stagger) (\<lambda>a.
              if a \<noteq> None then raiseE GridItemAlreadyLinked else returnE False)
            else raiseE GridItemNotSupported) (\<lambda>done.
     whenE (\<not> done)
       (thenE (whenE (\<not> from_file) (GridAddItem E item stagger))
              (allocate_items E item stagger from_file)))"

text \<open>\<^verbatim>\<open>add_item\<close> (lines 650-709).\<close>

definition add_item ::
  "'n esmp \<Rightarrow> GridItem \<Rightarrow> stagger_arg option \<Rightarrow> bool \<Rightarrow> ('n, ndarray option) py"
where
  "add_item E item stagger_arg from_file =
     (let sl = stagger_list stagger_arg in
      thenE (forE sl (add_item_step E item from_file))
        (if length sl = 1 then
           (if item = MASK then getslot mask_g (hd sl)
            else if item = AREA then getslot area (hd sl)
            else raiseE GridItemNotSupported)
         else returnE None))"

text \<open>\<^verbatim>\<open>copy\<close> (lines 711-722): a new object with the attributes of the old one.\<close>

definition copy :: "grid \<Rightarrow> grid" where
  "copy g = g\<lparr>finalized := Some True\<rparr>"

text \<open>\<^verbatim>\<open>destroy\<close> (lines 724-731); \<^verbatim>\<open>__del__\<close> and the exit hook only call it.\<close>

definition destroy :: "'n esmp \<Rightarrow> ('n, unit) py" where
  "destroy E =
     bindE (selfE finalized) (\<lambda>f.
     case f of
       None \<Rightarrow> returnE ()
     | Some fin \<Rightarrow>
         if \<not> fin then thenE (GridDestroy E) (assignE (finalized_update (\<lambda>_. Some True)))
         else returnE ())"

text \<open>
  The helpers of \<^verbatim>\<open>ESMF.util.slicing\<close> are outside grid.py and are parameters, at the
  types \<^verbatim>\<open>__getitem__\<close> uses them; \<^verbatim>\<open>get_none_or_slice\<close> of a list and an integer
  is taken to be the indexing of that list.
\<close>

record 's slicing =
  get_formatted_slice :: "'s \<Rightarrow> nat \<Rightarrow> py_error + 's"
  get_none_or_ssslice :: "ndarray option \<Rightarrow> 's \<Rightarrow> nat \<Rightarrow> nat \<Rightarrow> py_error + ndarray option"
  get_none_or_slice :: "ndarray option \<Rightarrow> 's \<Rightarrow> py_error + ndarray option"
  get_none_or_bound :: "ndarray option list \<Rightarrow> int \<Rightarrow> py_error + int list option"

text \<open>
  \<^verbatim>\<open>__getitem__\<close> (lines 339-360).  The result is the new object; \<^verbatim>\<open>self\<close> is only read.
\<close>

definition getitem :: "'n esmp \<Rightarrow> 's slicing \<Rightarrow> 's \<Rightarrow> ('n, grid) py" where
  "getitem E S slc0 =
     bindE (worldE (\<lambda>w. pet_count E (nstate w))) (\<lambda>pets.
     if pets > 1 then raiseE SerialMethod
     else
       bindE (selfE rank) (\<lambda>r.
       bindE (liftE (get_formatted_slice S slc0 r)) (\<lambda>slc.
       bindE (selfE copy) (\<lambda>ret.
       bindE (mapE [0 ..< 2 ^ r] (\<lambda>stagger.
                mapE [0 ..< r] (\<lambda>coorddim.
                  bindE (getcoord (int stagger) (int coorddim)) (\<lambda>c.
                  liftE (get_none_or_ssslice S c slc stagger r))))) (\<lambda>cs.
       bindE (mapE [0 ..< 2 ^ r] (\<lambda>stagger.
                bindE (getslot mask_g (int stagger)) (\<lambda>m.
                liftE (get_none_or_slice S m slc)))) (\<lambda>ms.
       bindE (mapE [0 ..< 2 ^ r] (\<lambda>stagger.
                bindE (getslot area (int stagger)) (\<lambda>a.
                liftE (get_none_or_slice S a slc)))) (\<lambda>ars.
       bindE (mapE [0 ..< 2 ^ r] (\<lambda>stagger.
                bindE (liftE (getitem_list cs (int stagger))) (\<lambda>row.
                liftE (get_none_or_bound S row 0)))) (\<lambda>ubs.
       returnE (ret\<lparr>coords := cs, mask_g := ms, area := ars, upper_bounds := ubs\<rparr>)))))))))"

section \<open>The constructor\<close>

text \<open>\<^verbatim>\<open>np.array(max_index, dtype=np.int32)\<close> on an integer array: each entry is cast.\<close>

definition int32 :: "int \<Rightarrow> int" where
  "int32 x = (x + 2 ^ 31) mod 2 ^ 32 - 2 ^ 31"

definition warn_ignored :: "string \<Rightarrow> bool \<times> string \<Rightarrow> ('n, unit) py" where
  "warn_ignored mode = (\<lambda>(given, name).
     whenE given (warn (name @ '' is only used for grids created '' @ mode
                        @ '', this argument will be ignored.'')))"

definition truthy :: "bool option \<Rightarrow> bool" where
  "truthy b = (b = Some True)"

text \<open>
  Lines 127-182: the choice of the creation mode.  The result is the local \<^verbatim>\<open>from_file\<close>.
  Nothing but warnings and the cast of \<^verbatim>\<open>max_index\<close> happens here.
\<close>

definition init_mode :: "grid_args \<Rightarrow> ('n, bool) py" where
  "init_mode a =
     (case arg_max_index a of
        Some mi \<Rightarrow>
          thenE (assignE (max_index_update (\<lambda>_. map int32 mi)))
         (thenE (forE
            [(arg_filename a \<noteq> None, ''filename''),
             (arg_filetype a \<noteq> None, ''filetype''),
             (arg_reg_decomp a \<noteq> None, ''reg_decomp''),
             (arg_decompflag a \<noteq> None, ''decompflag''),
             (arg_is_sphere a \<noteq> None, ''is_sphere''),
             (arg_add_corner_stagger a \<noteq> None, ''add_corner_stagger''),
             (arg_add_user_area a \<noteq> None, ''add_user_area''),
             (arg_add_mask a \<noteq> None, ''add_mask''),
             (arg_varname a \<noteq> None, ''varname''),
             (arg_coord_names a \<noteq> None \<and> arg_coord_names a \<noteq> Some [], ''coord_names'')]
            (warn_ignored ''from file''))
           (returnE False))
      | None \<Rightarrow>
          if arg_filename a = None \<or> arg_filetype a = None then raiseE GridArgumentError
          else if arg_filetype a \<noteq> Some SCRIP \<and> arg_filetype a \<noteq> Some GRIDSPEC
          then raiseE GridArgumentError
          else
            thenE (forE
              [(arg_max_index a \<noteq> None, ''max_index''),
               (arg_num_peri_dims a \<noteq> Some 0, ''num_peri_dims''),
               (arg_periodic_dim a \<noteq> None, ''periodic_dim''),
               (arg_pole_dim a \<noteq> None, ''pole_dim''),
               (arg_coord_sys a \<noteq> None, ''coord_sys''),
               (arg_coord_typekind a \<noteq> None, ''coord_typekind''),
               (arg_staggerloc a \<noteq> None, ''staggerloc'')]
              (warn_ignored ''in memory''))
             (returnE True))"

text \<open>
  Lines 184-225: the attributes set before the native grid exists.  The one-element
  placeholder lists of these lines are replaced at lines 297-314 before anything reads
  them, and are left out.
\<close>

definition with_attrs :: "grid_args \<Rightarrow> grid \<Rightarrow> grid" where
  "with_attrs a g =
     g\<lparr>type_g := R8, areatype := R8,
       periodic_dim := arg_periodic_dim a, pole_dim := arg_pole_dim a,
       coord_sys := arg_coord_sys a, has_corners := False,
       num_peri_dims := (case arg_num_peri_dims a of None \<Rightarrow> 0 | Some n \<Rightarrow> n)\<rparr>"

definition init_attrs :: "grid_args \<Rightarrow> ('n, unit) py" where
  "init_attrs a = assignE (with_attrs a)"

text \<open>
  Lines 227-265: creation from file.  The result is the local \<^verbatim>\<open>staggerloc\<close>.  The
  assignment \<^verbatim>\<open>_has_corners = True\<close> of line 255 binds a local name and has no effect.
\<close>

definition create_from_file :: "'n esmp \<Rightarrow> grid_args \<Rightarrow> ('n, stagger_arg option) py" where
  "create_from_file E a =
     (case (arg_filename a, arg_filetype a) of
        (Some filename, Some filetype) \<Rightarrow>
          bindE (case arg_reg_decomp a of
                   None \<Rightarrow> worldE (\<lambda>w. [pet_count E (nstate w), 1])
                 | Some rd \<Rightarrow> returnE rd) (\<lambda>reg_decomp.
          bindE (createE CallCreateFromFile
                   (ESMP_GridCreateFromFile E filename filetype reg_decomp a)) (\<lambda>h.
          thenE (assignE (struct_update (\<lambda>_. h)))
         (thenE (if filetype = SCRIP then
                   bindE (queryE NativeError (ESMP_ScripInq E filename)) (\<lambda>(r, mi).
                   assignE (\<lambda>g. g\<lparr>rank := r, max_index := mi, ndims := r\<rparr>))
                 else
                   bindE (queryE NativeError (ESMP_GridspecInq E filename)) (\<lambda>(r, nd, mi).
                   assignE (\<lambda>g. g\<lparr>rank := r, ndims := nd, max_index := mi\<rparr>)))
         (thenE (if arg_is_sphere a = Some False then
                   assignE (num_peri_dims_update (\<lambda>_. 0))
                 else
                   assignE (\<lambda>g. g\<lparr>num_peri_dims := 1, periodic_dim := Some 0\<rparr>))
                (returnE (Some (Several
                   (if truthy (arg_add_corner_stagger a) \<and> CORNER \<notin> set [CENTER]
                    then [CENTER, CORNER] else [CENTER]))))))))
      | _ \<Rightarrow> raiseE GridArgumentError)"

text \<open>Lines 267-288: creation in memory.\<close>

definition create_in_memory :: "'n esmp \<Rightarrow> grid_args \<Rightarrow> ('n, unit) py" where
  "create_in_memory E a =
     bindE (selfE num_peri_dims) (\<lambda>np.
     bindE (selfE max_index) (\<lambda>mi.
     thenE (if np = 0 then
              bindE (createE CallCreateNoPeriDim
                       (ESMP_GridCreateNoPeriDim E mi (arg_coord_sys a) (arg_coord_typekind a)))
                (\<lambda>h. assignE (struct_update (\<lambda>_. h)))
            else if np = 1 then
              bindE (createE CallCreate1PeriDim
                       (ESMP_GridCreate1PeriDim E mi (arg_periodic_dim a) (arg_pole_dim a)
                          (arg_coord_sys a) (arg_coord_typekind a)))
                (\<lambda>h. thenE (assignE (struct_update (\<lambda>_. h)))
                     (whenE (arg_periodic_dim a = None)
                        (assignE (\<lambda>g. g\<lparr>periodic_dim := Some 0, pole_dim := Some 1\<rparr>))))
            else raiseE TypeError)
           (assignE (\<lambda>g. g\<lparr>rank := length mi, ndims := length mi\<rparr>))))"

text \<open>Lines 290-314: the per-stagger lists, all of length \<open>2 ^ rank\<close>.\<close>

definition with_lists :: "grid_args \<Rightarrow> grid \<Rightarrow> grid" where
  "with_lists a g =
     g\<lparr>type_g := (case arg_coord_typekind a of None \<Rightarrow> R8 | Some t \<Rightarrow> t),
       staggerloc := map (\<lambda>a. False) [0 ..< 2 ^ rank g],
       lower_bounds := map (\<lambda>a. None) [0 ..< 2 ^ rank g],
       upper_bounds := map (\<lambda>a. None) [0 ..< 2 ^ rank g],
       size_g := map (\<lambda>a. None) [0 ..< 2 ^ rank g],
       coords := map (\<lambda>b. map (\<lambda>a. None) [0 ..< rank g]) [0 ..< 2 ^ rank g],
       mask_g := map (\<lambda>a. None) [0 ..< 2 ^ rank g],
       area := map (\<lambda>a. None) [0 ..< 2 ^ rank g]\<rparr>"

definition init_lists :: "grid_args \<Rightarrow> ('n, unit) py" where
  "init_lists a = assignE (with_lists a)"

text \<open>
  The body of \<^verbatim>\<open>__init__\<close> (lines 127-334), run on an object that has no attribute yet.
  The decorator \<^verbatim>\<open>@initialize\<close> (from \<^verbatim>\<open>ESMF.api.esmpymanager\<close>, outside grid.py) runs
  before the body and is not part of it.
\<close>

definition init_body :: "'n esmp \<Rightarrow> grid_args \<Rightarrow> ('n, unit) py" where
  "init_body E a =
     bindE (init_mode a) (\<lambda>from_file.
     thenE (init_attrs a)
    (bindE (if from_file then create_from_file E a
            else thenE (create_in_memory E a) (returnE (arg_staggerloc a))) (\<lambda>stagger_arg.
     thenE (init_lists a)
    (thenE (whenE (stagger_arg \<noteq> None)
              (bindE (add_coords E stagger_arg None from_file) (\<lambda>_. returnE ())))
    (thenE (whenE (truthy (arg_add_user_area a))
              (bindE (add_item E AREA (Some (Scalar CENTER)) from_file) (\<lambda>_. returnE ())))
    (thenE (whenE (truthy (arg_add_mask a))
              (bindE (add_item E MASK (Some (Scalar CENTER)) from_file) (\<lambda>_. returnE ())))
           (assignE (finalized_update (\<lambda>_. Some False)))))))))"

text \<open>An object before its first attribute is set.\<close>

definition blank :: grid where
  "blank = \<lparr>struct = 0, max_index = [], rank = 0, ndims = 0, num_peri_dims = 0,
            periodic_dim = None, pole_dim = None, coord_sys = None, type_g = R8,
            areatype = R8, has_corners = False, size_g = [], staggerloc = [],
            lower_bounds = [], upper_bounds = [], coords = [], mask_g = [], area = [],
            finalized = None\<rparr>"

text \<open>
  \<^verbatim>\<open>Grid(...)\<close>: the new object if the body returns, else the exception; with the world
  in both cases.  The object of a failed construction is unreachable.
\<close>

definition Grid :: "'n esmp \<Rightarrow> grid_args \<Rightarrow> 'n world \<Rightarrow> (py_error + grid) \<times> 'n world" where
  "Grid E a w =
     (case init_body E a (blank, w) of
        (Inl e, g, w') \<Rightarrow> (Inl e, w')
      | (Inr u, g, w') \<Rightarrow> (Inr g, w'))"

section \<open>Reading a Grid\<close>

text \<open>What \<^verbatim>\<open>self.coords[stagger][d]\<close> evaluates to, without the state around it.\<close>

definition coord_of :: "grid \<Rightarrow> int \<Rightarrow> int \<Rightarrow> py_error + ndarray option" where
  "coord_of g stagger d =
     (case getitem_list (coords g) stagger of Inl e \<Rightarrow> Inl e | Inr row \<Rightarrow> getitem_list row d)"

text \<open>How often the native destructor has been called.\<close>

definition destroy_calls :: "'n world \<Rightarrow> nat" where
  "destroy_calls w = length (filter (\<lambda>c. case c of CallDestroy h \<Rightarrow> True | _ \<Rightarrow> False) (trace w))"

definition create_calls :: "'n world \<Rightarrow> nat" where
  "create_calls w =
     length (filter (\<lambda>c. c = CallCreateNoPeriDim \<or> c = CallCreate1PeriDim \<or> c = CallCreateFromFile)
               (trace w))"

section \<open>A serial stand-in for the native library\<close>

text \<open>
  One process; the native state is the list of the grids created so far (a handle is a
  position in it, the entry is the grid's \<^verbatim>\<open>max_index\<close>); every stagger location of a grid
  spans \<open>0\<close> to \<^verbatim>\<open>max_index\<close>; no file can be read.  It serves to run the methods on
  concrete arguments.
\<close>

definition serial_esmp :: "int list list esmp" where
  "serial_esmp =
     \<lparr>ESMP_GridCreateNoPeriDim = (\<lambda>mi cs tk n. (Some (length n), n @ [mi])),
      ESMP_GridCreate1PeriDim = (\<lambda>mi pd pl cs tk n. (Some (length n), n @ [mi])),
      ESMP_GridCreateFromFile = (\<lambda>fname ft rd a n. (None, n)),
      ESMP_ScripInq = (\<lambda>fname n. None),
      ESMP_GridspecInq = (\<lambda>fname n. None),
      ESMP_GridAddCoord = (\<lambda>h s n. (h < length n, n)),
      ESMP_GridAddItem = (\<lambda>h i s n. (h < length n, n)),
      ESMP_GridGetCoordBounds =
        (\<lambda>h s n. if h < length n then Some (map (\<lambda>x. 0) (n ! h), n ! h) else None),
      ESMP_GridGetCoordPtr = (\<lambda>h d s n. Some (100 * h + 10 * nat s + d)),
      ESMP_GridGetItem = (\<lambda>h i s n. Some (100 * h + 10 * nat s + (if i = MASK then 8 else 9))),
      ESMP_GridDestroy = (\<lambda>h n. (True, n)),
      pet_count = (\<lambda>n. 1)\<rparr>"

definition world0 :: "int list list world" where
  "world0 = \<lparr>nstate = [], mem = (\<lambda>p k. 7), warnings = [], trace = []\<rparr>"

text \<open>
  The same library with a native side that hands out no coordinate pointer: every
  \<^verbatim>\<open>ESMP_GridGetCoordPtr\<close> fails, as it does when the native allocation is missing.
\<close>

definition unlinked_esmp :: "int list list esmp" where
  "unlinked_esmp = serial_esmp\<lparr>ESMP_GridGetCoordPtr := (\<lambda>h d s n. None)\<rparr>"

text \<open>The constructor's arguments when only \<^verbatim>\<open>max_index\<close> is given: the declared defaults.\<close>

definition in_memory_args :: "int list \<Rightarrow> grid_args" where
  "in_memory_args mi =
     \<lparr>arg_max_index = Some mi, arg_num_peri_dims = Some 0, arg_periodic_dim = None,
      arg_pole_dim = None, arg_coord_sys = None, arg_coord_typekind = None,
      arg_staggerloc = None, arg_filename = None, arg_filetype = None,
      arg_reg_decomp = None, arg_decompflag = None, arg_is_sphere = None,
      arg_add_corner_stagger = None, arg_add_user_area = None, arg_add_mask = None,
      arg_varname = None, arg_coord_names = None\<rparr>"

text \<open>
  The slicing helpers specialised to the slice that selects everything: each array is
  returned as it is, and the bound of a row is the shape of its first array.
\<close>

definition full_slicing :: "unit slicing" where
  "full_slicing =
     \<lparr>get_formatted_slice = (\<lambda>slc r. Inr slc),
      get_none_or_ssslice = (\<lambda>a slc stagger r. Inr a),
      get_none_or_slice = (\<lambda>a slc. Inr a),
      get_none_or_bound =
        (\<lambda>row i. case getitem_list row i of
                    Inl e \<Rightarrow> Inl e
                  | Inr None \<Rightarrow> Inr None
                  | Inr (Some a) \<Rightarrow> Inr (Some (shape_of a)))\<rparr>"

section \<open>Invariants of methods\<close>

text \<open>
  A method keeps a property of the Grid when the property holds after every run that
  started with it, whether the run returned or raised.
\<close>

definition keeps :: "(grid \<Rightarrow> bool) \<Rightarrow> ('n, 'a) py \<Rightarrow> bool" where
  "keeps I m = (\<forall>g w r g' w'. I g \<longrightarrow> m (g, w) = (r, g', w') \<longrightarrow> I g')"

text \<open>A property that no assignment to a per-stagger list or to \<^verbatim>\<open>_has_corners\<close> can break.\<close>

definition listfree :: "(grid \<Rightarrow> bool) \<Rightarrow> bool" where
  "listfree I = (\<forall>g. I g \<longrightarrow>
     (\<forall>f. I (lower_bounds_update f g)) \<and> (\<forall>f. I (upper_bounds_update f g)) \<and>
     (\<forall>f. I (size_g_update f g)) \<and> (\<forall>f. I (has_corners_update f g)) \<and>
     (\<forall>f. I (coords_update f g)) \<and> (\<forall>f. I (mask_g_update f g)) \<and>
     (\<forall>f. I (area_update f g)) \<and> (\<forall>f. I (staggerloc_update f g)))"

text \<open>Whether \<^verbatim>\<open>self.coords[stagger][d]\<close> holds an array.\<close>

definition allocated :: "grid \<Rightarrow> int \<Rightarrow> int \<Rightarrow> bool" where
  "allocated g s d = (case coord_of g s d of Inr (Some v) \<Rightarrow> True | _ \<Rightarrow> False)"

text \<open>A property that only an assignment to the coordinate slots can break.\<close>

definition coordfree :: "(grid \<Rightarrow> bool) \<Rightarrow> bool" where
  "coordfree I = (\<forall>g. I g \<longrightarrow>
     (\<forall>f. I (lower_bounds_update f g)) \<and> (\<forall>f. I (upper_bounds_update f g)) \<and>
     (\<forall>f. I (size_g_update f g)) \<and> (\<forall>f. I (has_corners_update f g)) \<and>
     (\<forall>f. I (mask_g_update f g)) \<and>
     (\<forall>f. I (area_update f g)) \<and> (\<forall>f. I (staggerloc_update f g)))"

text \<open>Whether a run returned instead of raising.\<close>

definition returned :: "(py_error + 'a) \<times> 's \<Rightarrow> bool" where
  "returned p = (case fst p of Inl e \<Rightarrow> False | Inr x \<Rightarrow> True)"

text \<open>Whether a list slot or coordinate slot was read and is not \<^verbatim>\<open>None\<close>.\<close>

definition not_None :: "py_error + 'a option \<Rightarrow> bool" where
  "not_None r = (case r of Inr (Some v) \<Rightarrow> True | _ \<Rightarrow> False)"

text \<open>The bounds and the size of a stagger location are cached.\<close>

definition bounded :: "grid \<Rightarrow> int \<Rightarrow> bool" where
  "bounded g s =
     (not_None (getitem_list (lower_bounds g) s) \<and>
      not_None (getitem_list (upper_bounds g) s) \<and>
      not_None (getitem_list (size_g g) s))"

text \<open>
  A stagger location is populated: a coordinate array in every dimension below the rank,
  bounds and size cached, and its \<^verbatim>\<open>staggerloc\<close> flag set.
\<close>

definition populated :: "grid \<Rightarrow> int \<Rightarrow> bool" where
  "populated g s =
     (list_all (\<lambda>d. allocated g s (int d)) [0 ..< rank g] \<and> bounded g s \<and>
      getitem_list (staggerloc g) s = Inr True)"

text \<open>
  The cached size of a stagger location is the extent the native side reports in the
  native state \<open>n\<close>.
\<close>

definition size_current :: "'n esmp \<Rightarrow> grid \<Rightarrow> int \<Rightarrow> 'n \<Rightarrow> bool" where
  "size_current E g s n =
     (case ESMP_GridGetCoordBounds E (struct g) s n of
        None \<Rightarrow> False
      | Some (lb, ub) \<Rightarrow>
          (case np_sub ub lb of
             Inl e \<Rightarrow> False
           | Inr d \<Rightarrow> getitem_list (size_g g) s = Inr (Some d)))"

text \<open>The \<^verbatim>\<open>staggerloc\<close> flags say which stagger locations have a first coordinate array.\<close>

definition flags_ok :: "grid \<Rightarrow> bool" where
  "flags_ok g =
     (length (staggerloc g) = length (coords g) \<and>
      (\<forall>i < length (coords g). staggerloc g ! i = not_None (getitem_list (coords g ! i) 0)))"

text \<open>
  The stagger locations the constructor is asked to populate in memory: those of the
  argument \<^verbatim>\<open>staggerloc\<close>, none when it is left out.
\<close>

definition requested :: "grid_args \<Rightarrow> int list" where
  "requested a = (case arg_staggerloc a of None \<Rightarrow> [] | Some sa \<Rightarrow> stagger_list (Some sa))"

section \<open>Running the combinators\<close>

lemma run_returnE: "returnE x s = (Inr x, s)"
  by (simp add: returnE_def)

lemma run_raiseE: "raiseE e s = (Inl e, s)"
  by (simp add: raiseE_def)

lemma run_bindE:
  "bindE m f s = (case m s of (Inl e, s') \<Rightarrow> (Inl e, s') | (Inr x, s') \<Rightarrow> f x s')"
  by (simp add: bindE_def)

lemma run_thenE:
  "thenE m k s = (case m s of (Inl e, s') \<Rightarrow> (Inl e, s') | (Inr x, s') \<Rightarrow> k s')"
  by (simp add: thenE_def bindE_def)

lemma run_whenE: "whenE c m s = (if c then m s else (Inr (), s))"
  by (simp add: whenE_def returnE_def)

lemma run_liftE: "liftE r s = (case r of Inl e \<Rightarrow> (Inl e, s) | Inr x \<Rightarrow> (Inr x, s))"
  by (simp add: liftE_def returnE_def raiseE_def split: sum.splits)

lemma run_selfE: "selfE f (g, w) = (Inr (f g), g, w)"
  by (simp add: selfE_def)

lemma run_worldE: "worldE f (g, w) = (Inr (f w), g, w)"
  by (simp add: worldE_def)

lemma run_assignE: "assignE f (g, w) = (Inr (), f g, w)"
  by (simp add: assignE_def)

lemma run_warn: "warn msg (g, w) = (Inr (), g, w\<lparr>warnings := warnings w @ [msg]\<rparr>)"
  by (simp add: warn_def)

lemma run_queryE:
  "queryE err q (g, w) =
     (case q (nstate w) of None \<Rightarrow> (Inl err, g, w) | Some r \<Rightarrow> (Inr r, g, w))"
  by (simp add: queryE_def)

lemma run_callE:
  "callE c f (g, w) =
     ((if fst (f (nstate w)) then Inr () else Inl NativeError), g,
      w\<lparr>nstate := snd (f (nstate w)), trace := trace w @ [c]\<rparr>)"
  by (simp add: callE_def split: prod.splits)

lemma run_createE:
  "createE c f (g, w) =
     ((case fst (f (nstate w)) of None \<Rightarrow> Inl NativeError | Some h \<Rightarrow> Inr h), g,
      w\<lparr>nstate := snd (f (nstate w)), trace := trace w @ [c]\<rparr>)"
  by (simp add: createE_def split: prod.splits)

lemma run_assertE: "assertE c s = (if c then (Inr (), s) else (Inl AssertionError, s))"
  by (simp add: assertE_def returnE_def raiseE_def)

lemma run_getslot:
  "getslot attr i (g, w) =
     (case getitem_list (attr g) i of Inl e \<Rightarrow> (Inl e, g, w) | Inr v \<Rightarrow> (Inr v, g, w))"
  by (simp add: getslot_def run_bindE run_selfE run_liftE split: sum.splits)

lemma run_setslot:
  "setslot attr upd i v (g, w) =
     (case setitem_list (attr g) i v of
        Inl e \<Rightarrow> (Inl e, g, w)
      | Inr xs \<Rightarrow> (Inr (), upd (\<lambda>_. xs) g, w))"
  by (simp add: setslot_def run_bindE run_selfE run_liftE run_assignE split: sum.splits)

lemmas run =
  run_returnE run_raiseE run_bindE run_thenE run_whenE run_liftE run_selfE run_worldE
  run_assignE run_warn run_queryE run_callE run_createE run_assertE run_getslot run_setslot

section \<open>Construction without a creation mode\<close>

text \<open>
  Claim C1.  When \<^verbatim>\<open>max_index\<close> is \<^verbatim>\<open>None\<close> and \<^verbatim>\<open>filename\<close> or \<^verbatim>\<open>filetype\<close> is \<^verbatim>\<open>None\<close>,
  the constructor raises \<^verbatim>\<open>GridArgumentError\<close>, whatever the other arguments and the native
  library are.  The world is left as it was: no native call is made, so no native grid
  is created, and no warning is issued.
\<close>

theorem Grid_without_mode_fails:
  "arg_max_index a = None \<Longrightarrow> arg_filename a = None \<or> arg_filetype a = None \<Longrightarrow>
   Grid E a w = (Inl GridArgumentError, w) \<and>
   create_calls (snd (Grid E a w)) = create_calls w"
  by (simp add: Grid_def init_body_def init_mode_def run)

theorem Grid_without_mode_fails_witness:
  "arg_max_index ((in_memory_args [])\<lparr>arg_max_index := None, arg_filename := Some ''grid.nc''\<rparr>) = None \<and>
   (arg_filename ((in_memory_args [])\<lparr>arg_max_index := None, arg_filename := Some ''grid.nc''\<rparr>) = None \<or>
    arg_filetype ((in_memory_args [])\<lparr>arg_max_index := None, arg_filename := Some ''grid.nc''\<rparr>) = None) \<and>
   Grid serial_esmp ((in_memory_args [])\<lparr>arg_max_index := None, arg_filename := Some ''grid.nc''\<rparr>) world0
     = (Inl GridArgumentError, world0)"
  using Grid_without_mode_fails
          [of "(in_memory_args [])\<lparr>arg_max_index := None, arg_filename := Some ''grid.nc''\<rparr>"
              serial_esmp world0]
  by (simp add: in_memory_args_def)

section \<open>Items that are already allocated\<close>

text \<open>
  Claim C4.  Let \<open>s\<close> be the single stagger location passed to \<^verbatim>\<open>add_item\<close>, as a scalar
  or as a one-element list.  If \<^verbatim>\<open>mask[s]\<close> is not \<^verbatim>\<open>None\<close>, \<^verbatim>\<open>add_item(MASK, s)\<close> raises
  \<^verbatim>\<open>GridItemAlreadyLinked\<close> and leaves the Grid and the world (native state, buffers,
  warnings, trace of native calls) exactly as they were; the same with \<^verbatim>\<open>area[s]\<close> and
  \<^verbatim>\<open>AREA\<close>.
\<close>

theorem add_item_already_linked:
  "sa = Scalar s \<or> sa = Several [s] \<Longrightarrow>
   (getitem_list (mask_g g) s = Inr (Some m) \<longrightarrow>
      add_item E MASK (Some sa) from_file (g, w) = (Inl GridItemAlreadyLinked, g, w)) \<and>
   (getitem_list (area g) s = Inr (Some m) \<longrightarrow>
      add_item E AREA (Some sa) from_file (g, w) = (Inl GridItemAlreadyLinked, g, w))"
  by (auto simp: add_item_def add_item_step_def stagger_list_def run Let_def)

theorem add_item_already_linked_witness:
  "getitem_list (mask_g (blank\<lparr>mask_g := [Some (View 8 I4 [4, 4])],
                               area := [Some (View 9 R8 [4, 4])]\<rparr>)) 0
     = Inr (Some (View 8 I4 [4, 4])) \<and>
   add_item serial_esmp MASK (Some (Scalar 0)) False
       (blank\<lparr>mask_g := [Some (View 8 I4 [4, 4])], area := [Some (View 9 R8 [4, 4])]\<rparr>, world0)
     = (Inl GridItemAlreadyLinked,
        blank\<lparr>mask_g := [Some (View 8 I4 [4, 4])], area := [Some (View 9 R8 [4, 4])]\<rparr>, world0) \<and>
   getitem_list (area (blank\<lparr>mask_g := [Some (View 8 I4 [4, 4])],
                             area := [Some (View 9 R8 [4, 4])]\<rparr>)) 0
     = Inr (Some (View 9 R8 [4, 4])) \<and>
   add_item serial_esmp AREA (Some (Several [0])) False
       (blank\<lparr>mask_g := [Some (View 8 I4 [4, 4])], area := [Some (View 9 R8 [4, 4])]\<rparr>, world0)
     = (Inl GridItemAlreadyLinked,
        blank\<lparr>mask_g := [Some (View 8 I4 [4, 4])], area := [Some (View 9 R8 [4, 4])]\<rparr>, world0)"
  using add_item_already_linked
          [of "Scalar 0" 0
              "blank\<lparr>mask_g := [Some (View 8 I4 [4, 4])], area := [Some (View 9 R8 [4, 4])]\<rparr>"
              "View 8 I4 [4, 4]" serial_esmp False world0]
        add_item_already_linked
          [of "Several [0]" 0
              "blank\<lparr>mask_g := [Some (View 8 I4 [4, 4])], area := [Some (View 9 R8 [4, 4])]\<rparr>"
              "View 9 R8 [4, 4]" serial_esmp False world0]
  by (simp add: getitem_list_def py_index_def)

section \<open>Slicing on more than one process\<close>

text \<open>
  Claim C6.  When \<^verbatim>\<open>pet_count()\<close> is greater than one, \<^verbatim>\<open>__getitem__\<close> raises
  \<^verbatim>\<open>SerialMethod\<close> at once, for every Grid, slice and slicing helper; the Grid (its
  coordinates, mask, area and bounds among the rest) and the world are unchanged.
\<close>

theorem getitem_parallel_fails:
  "1 < pet_count E (nstate w) \<Longrightarrow> getitem E S slc (g, w) = (Inl SerialMethod, g, w)"
  by (simp add: getitem_def run)

theorem getitem_parallel_fails_witness:
  "1 < pet_count (serial_esmp\<lparr>pet_count := \<lambda>n. 4\<rparr>) (nstate world0) \<and>
   getitem (serial_esmp\<lparr>pet_count := \<lambda>n. 4\<rparr>) full_slicing () (blank, world0)
     = (Inl SerialMethod, blank, world0)"
  using getitem_parallel_fails [of "serial_esmp\<lparr>pet_count := \<lambda>n. 4\<rparr>" world0 full_slicing "()" blank]
  by simp

section \<open>Destruction\<close>

text \<open>
  Claim C7.  For every Grid and world:
  \<^item> \<^verbatim>\<open>destroy\<close> on an object without the attribute \<^verbatim>\<open>_finalized\<close> changes nothing;
  \<^item> \<^verbatim>\<open>destroy\<close> on a shallow copy changes nothing, so destroying the copy and then the
    original calls the native destructor as often as destroying the original alone;
  \<^item> one \<^verbatim>\<open>destroy\<close> calls the native destructor at most once;
  \<^item> after a \<^verbatim>\<open>destroy\<close> that returned, a second \<^verbatim>\<open>destroy\<close> changes nothing, so the two
    calls together call the native destructor at most once; and if the object had the
    attribute, \<^verbatim>\<open>finalized\<close> is \<^verbatim>\<open>True\<close> after the first call and stays \<^verbatim>\<open>True\<close>.
\<close>

theorem destroy_idempotent:
  "(finalized g = None \<longrightarrow> destroy E (g, w) = (Inr (), g, w)) \<and>
   destroy E (copy g, w) = (Inr (), copy g, w) \<and>
   (\<forall>r g1 w1. destroy E (g, w) = (r, g1, w1) \<longrightarrow> destroy_calls w1 \<le> destroy_calls w + 1) \<and>
   (\<forall>u g1 w1. destroy E (g, w) = (Inr u, g1, w1) \<longrightarrow>
        (finalized g \<noteq> None \<longrightarrow> finalized g1 = Some True) \<and>
        destroy E (g1, w1) = (Inr (), g1, w1))"
  by (auto simp: destroy_def GridDestroy_def copy_def destroy_calls_def run
           split: option.splits prod.splits if_splits)

theorem destroy_idempotent_witness:
  "destroy serial_esmp (copy (blank\<lparr>finalized := Some False\<rparr>), world0)
     = (Inr (), copy (blank\<lparr>finalized := Some False\<rparr>), world0) \<and>
   destroy serial_esmp (blank\<lparr>finalized := Some False\<rparr>, world0)
     = (Inr (), blank\<lparr>finalized := Some True\<rparr>, world0\<lparr>trace := [CallDestroy 0]\<rparr>) \<and>
   destroy serial_esmp (blank\<lparr>finalized := Some True\<rparr>, world0\<lparr>trace := [CallDestroy 0]\<rparr>)
     = (Inr (), blank\<lparr>finalized := Some True\<rparr>, world0\<lparr>trace := [CallDestroy 0]\<rparr>) \<and>
   destroy_calls (world0\<lparr>trace := [CallDestroy 0]\<rparr>) \<le> destroy_calls world0 + 1 \<and>
   finalized blank = None \<and>
   destroy serial_esmp (blank, world0) = (Inr (), blank, world0)"
  using destroy_idempotent [of "blank\<lparr>finalized := Some False\<rparr>" serial_esmp world0]
        destroy_idempotent [of blank serial_esmp world0]
  by (simp add: destroy_def GridDestroy_def copy_def destroy_calls_def run blank_def
                serial_esmp_def world0_def)

section \<open>Rules for invariants\<close>

lemma keepsD: "keeps I m \<Longrightarrow> m (g, w) = (r, g', w') \<Longrightarrow> I g \<Longrightarrow> I g'"
  unfolding keeps_def by blast

lemma keeps_bindE:
  assumes m: "keeps I m" and f: "\<And>x. keeps I (f x)"
  shows "keeps I (bindE m f)"
  unfolding keeps_def
proof (intro allI impI)
  fix g w r g' w'
  assume I: "I g" and run: "bindE m f (g, w) = (r, g', w')"
  obtain r1 g1 w1 where m1: "m (g, w) = (r1, g1, w1)"
    by (cases "m (g, w)") auto
  have I1: "I g1"
    using keepsD [OF m m1 I] .
  show "I g'"
  proof (cases r1)
    case (Inl e)
    with run m1 have "g' = g1" by (simp add: run_bindE)
    with I1 show ?thesis by simp
  next
    case (Inr x)
    with run m1 have "f x (g1, w1) = (r, g', w')" by (simp add: run_bindE)
    then show ?thesis using keepsD [OF f _ I1] by blast
  qed
qed

lemma keeps_thenE: "keeps I m \<Longrightarrow> keeps I k \<Longrightarrow> keeps I (thenE m k)"
  unfolding thenE_def by (rule keeps_bindE)

lemma keeps_returnE: "keeps I (returnE x)"
  by (simp add: keeps_def run)

lemma keeps_raiseE: "keeps I (raiseE e)"
  by (simp add: keeps_def run)

lemma keeps_whenE: "(c \<Longrightarrow> keeps I m) \<Longrightarrow> keeps I (whenE c m)"
  by (cases c) (simp_all add: whenE_def keeps_returnE)

lemma keeps_if: "(c \<Longrightarrow> keeps I a) \<Longrightarrow> (\<not> c \<Longrightarrow> keeps I b) \<Longrightarrow> keeps I (if c then a else b)"
  by simp

lemma keeps_case_prod: "(\<And>a b. keeps I (f a b)) \<Longrightarrow> keeps I (case p of (a, b) \<Rightarrow> f a b)"
  by (cases p) simp

lemma keeps_case_option:
  "keeps I a \<Longrightarrow> (\<And>x. keeps I (f x)) \<Longrightarrow> keeps I (case v of None \<Rightarrow> a | Some x \<Rightarrow> f x)"
  by (cases v) simp_all

lemma keeps_liftE: "keeps I (liftE r)"
  by (auto simp: keeps_def run split: sum.splits)

lemma keeps_selfE: "keeps I (selfE f)"
  by (simp add: keeps_def run)

lemma keeps_worldE: "keeps I (worldE f)"
  by (simp add: keeps_def run)

lemma keeps_assertE: "keeps I (assertE c)"
  by (simp add: keeps_def run)

lemma keeps_warn: "keeps I (warn msg)"
  by (simp add: keeps_def run)

lemma keeps_queryE: "keeps I (queryE err q)"
  by (auto simp: keeps_def run split: option.splits)

lemma keeps_callE: "keeps I (callE c f)"
  by (auto simp: keeps_def run)

lemma keeps_createE: "keeps I (createE c f)"
  by (auto simp: keeps_def run)

lemma keeps_getslot: "keeps I (getslot attr i)"
  by (auto simp: keeps_def run split: sum.splits)

lemma keeps_getcoord: "keeps I (getcoord s d)"
  unfolding getcoord_def by (intro keeps_bindE keeps_getslot keeps_liftE)

lemma keeps_fill: "keeps I (fill a v)"
  by (auto simp: keeps_def fill_def run split: option.splits ndarray.splits)

lemma keeps_forE: "(\<And>x. keeps I (body x)) \<Longrightarrow> keeps I (forE xs body)"
  by (induction xs) (simp_all add: keeps_returnE keeps_thenE)

lemma keeps_assignE: "(\<And>g. I g \<Longrightarrow> I (u g)) \<Longrightarrow> keeps I (assignE u)"
  by (simp add: keeps_def run)

lemma keeps_setslot:
  "(\<And>g xs. I g \<Longrightarrow> setitem_list (attr g) i v = Inr xs \<Longrightarrow> I (upd (\<lambda>_. xs) g)) \<Longrightarrow>
   keeps I (setslot attr upd i v)"
  by (auto simp: keeps_def run split: sum.splits)

lemma keeps_setcoord:
  "(\<And>g row row' cs. I g \<Longrightarrow> getitem_list (coords g) s = Inr row \<Longrightarrow>
      setitem_list row d v = Inr row' \<Longrightarrow> setitem_list (coords g) s row' = Inr cs \<Longrightarrow>
      I (g\<lparr>coords := cs\<rparr>)) \<Longrightarrow>
   keeps I (setcoord s d v)"
  by (auto simp: keeps_def setcoord_def run split: sum.splits)

lemmas keeps_basic =
  keeps_bindE keeps_thenE keeps_returnE keeps_raiseE keeps_whenE keeps_if keeps_case_prod
  keeps_case_option keeps_liftE keeps_selfE keeps_worldE keeps_assertE keeps_warn keeps_queryE
  keeps_callE keeps_createE keeps_getslot keeps_getcoord keeps_fill keeps_forE

lemma lf_setslot:
  "listfree I \<Longrightarrow> keeps I (setslot lower_bounds lower_bounds_update i v)"
  "listfree I \<Longrightarrow> keeps I (setslot upper_bounds upper_bounds_update i v)"
  "listfree I \<Longrightarrow> keeps I (setslot size_g size_g_update i v)"
  "listfree I \<Longrightarrow> keeps I (setslot mask_g mask_g_update i w)"
  "listfree I \<Longrightarrow> keeps I (setslot area area_update i w)"
  "listfree I \<Longrightarrow> keeps I (setslot staggerloc staggerloc_update i b)"
  by (rule keeps_setslot, simp add: listfree_def)+

lemma lf_setcoord: "listfree I \<Longrightarrow> keeps I (setcoord s d v)"
  by (rule keeps_setcoord) (simp add: listfree_def)

lemma lf_corners: "listfree I \<Longrightarrow> keeps I (set_has_corners s)"
  unfolding set_has_corners_def
  by (intro keeps_whenE keeps_assignE) (simp add: listfree_def)

lemma lf_verify: "listfree I \<Longrightarrow> keeps I (verify_grid_bounds E s)"
  unfolding verify_grid_bounds_def GridGetCoordBounds_def
  by (intro keeps_basic lf_setslot) 


lemma lf_GridGetCoordBounds: "keeps I (GridGetCoordBounds E err s)"
  unfolding GridGetCoordBounds_def by (intro keeps_basic)

lemma lf_link_coord_buffer: "listfree I \<Longrightarrow> keeps I (link_coord_buffer E d s)"
  unfolding link_coord_buffer_def
  by (intro keeps_basic lf_GridGetCoordBounds lf_setcoord lf_corners)

lemma lf_axis_view: "keeps I (axis_view E d s lb ub)"
  unfolding axis_view_def by (intro keeps_basic)

lemma lf_link_1D: "listfree I \<Longrightarrow> keeps I (link_coord_buffer_1Dcoords E s)"
  unfolding link_coord_buffer_1Dcoords_def
  by (intro keeps_basic lf_GridGetCoordBounds lf_axis_view lf_setcoord lf_corners)

lemma lf_link_item: "listfree I \<Longrightarrow> keeps I (link_item_buffer E item s)"
  unfolding link_item_buffer_def
  by (intro keeps_basic lf_GridGetCoordBounds lf_setslot)

lemma lf_zero_coord: "listfree I \<Longrightarrow> keeps I (zero_coord s d)"
  unfolding zero_coord_def by (intro keeps_basic lf_setcoord)

lemma lf_fill_coord: "listfree I \<Longrightarrow> keeps I (fill_coord s d)"
  unfolding fill_coord_def by (intro keeps_basic lf_setcoord)

lemma lf_allocate_coords: "listfree I \<Longrightarrow> keeps I (allocate_coords E s ff)"
  unfolding allocate_coords_def
  by (intro keeps_basic lf_verify lf_zero_coord lf_fill_coord lf_link_coord_buffer lf_link_1D)

lemma lf_fill_slot:
  "listfree I \<Longrightarrow> keeps I (fill_slot mask_g mask_g_update s v)"
  "listfree I \<Longrightarrow> keeps I (fill_slot area area_update s v)"
  unfolding fill_slot_def by (intro keeps_basic lf_setslot; assumption)+

lemma lf_allocate_items: "listfree I \<Longrightarrow> keeps I (allocate_items E item s ff)"
  unfolding allocate_items_def
  by (intro keeps_basic lf_verify lf_setslot lf_link_item lf_fill_slot)

lemma lf_add_coords_step: "listfree I \<Longrightarrow> keeps I (add_coords_step E ff s)"
  unfolding add_coords_step_def GridAddCoord_def
  by (intro keeps_basic lf_allocate_coords lf_setslot)

lemma lf_add_coords: "listfree I \<Longrightarrow> keeps I (add_coords E sa cd ff)"
  unfolding add_coords_def Let_def
  by (intro keeps_basic lf_add_coords_step)

lemma lf_add_item_step: "listfree I \<Longrightarrow> keeps I (add_item_step E item ff s)"
  unfolding add_item_step_def GridAddItem_def
  by (intro keeps_basic lf_allocate_items)

lemma lf_add_item: "listfree I \<Longrightarrow> keeps I (add_item E item sa ff)"
  unfolding add_item_def Let_def
  by (intro keeps_basic lf_add_item_step)


lemma keeps_mapE: "(\<And>x. keeps I (f x)) \<Longrightarrow> keeps I (mapE xs f)"
  by (induction xs) (auto intro!: keeps_bindE keeps_returnE)

lemma keeps_warn_ignored: "keeps I (warn_ignored mode p)"
  unfolding warn_ignored_def by (intro keeps_basic)

lemma keeps_init_mode:
  "(\<And>g f. I g \<Longrightarrow> I (max_index_update f g)) \<Longrightarrow> keeps I (init_mode a)"
  unfolding init_mode_def
  by (intro keeps_basic keeps_warn_ignored keeps_assignE) 


lemma bindE_Inr:
  "bindE m f s = (Inr y, s') \<longleftrightarrow> (\<exists>x s1. m s = (Inr x, s1) \<and> f x s1 = (Inr y, s'))"
  by (cases "m s") (auto simp: run_bindE split: sum.splits)

lemma thenE_Inr:
  "thenE m k s = (Inr y, s') \<longleftrightarrow> (\<exists>s1. m s = (Inr (), s1) \<and> k s1 = (Inr y, s'))"
  by (simp add: thenE_def bindE_Inr)

lemma whenE_Inr:
  "whenE c m s = (Inr y, s') \<longleftrightarrow> (if c then m s = (Inr y, s') else s' = s)"
  by (auto simp: run_whenE)

lemma forE_warn_ignored:
  "\<exists>ws. forE xs (warn_ignored mode) (g, w) = (Inr (), g, w\<lparr>warnings := warnings w @ ws\<rparr>)"
proof (induction xs arbitrary: w)
  case Nil
  have "forE [] (warn_ignored mode) (g, w) = (Inr (), g, w\<lparr>warnings := warnings w @ []\<rparr>)"
    by (simp add: run)
  then show ?case by blast
next
  case (Cons x xs)
  obtain c name where x: "x = (c, name)" by (cases x)
  define msg where "msg = name @ '' is only used for grids created '' @ mode
                        @ '', this argument will be ignored.''"
  show ?case
  proof (cases c)
    case True
    obtain ws where ws: "forE xs (warn_ignored mode) (g, w\<lparr>warnings := warnings w @ [msg]\<rparr>)
        = (Inr (), g, w\<lparr>warnings := warnings w @ [msg], warnings := warnings (w\<lparr>warnings := warnings w @ [msg]\<rparr>) @ ws\<rparr>)"
      using Cons [of "w\<lparr>warnings := warnings w @ [msg]\<rparr>"] by auto
    have "forE (x # xs) (warn_ignored mode) (g, w)
        = (Inr (), g, w\<lparr>warnings := warnings w @ ([msg] @ ws)\<rparr>)"
      using x True ws by (simp add: run warn_ignored_def msg_def)
    then show ?thesis by blast
  next
    case False
    obtain ws where ws: "forE xs (warn_ignored mode) (g, w)
        = (Inr (), g, w\<lparr>warnings := warnings w @ ws\<rparr>)"
      using Cons [of w] by auto
    have "forE (x # xs) (warn_ignored mode) (g, w)
        = (Inr (), g, w\<lparr>warnings := warnings w @ ws\<rparr>)"
      using x False ws by (simp add: run warn_ignored_def)
    then show ?thesis by blast
  qed
qed

lemma init_mode_in_memory:
  assumes "arg_max_index a = Some mi"
  shows "\<exists>ws. init_mode a (g, w) =
           (Inr False, g\<lparr>max_index := map int32 mi\<rparr>, w\<lparr>warnings := warnings w @ ws\<rparr>)"
proof -
  let ?xs = "[(arg_filename a \<noteq> None, ''filename''),
             (arg_filetype a \<noteq> None, ''filetype''),
             (arg_reg_decomp a \<noteq> None, ''reg_decomp''),
             (arg_decompflag a \<noteq> None, ''decompflag''),
             (arg_is_sphere a \<noteq> None, ''is_sphere''),
             (arg_add_corner_stagger a \<noteq> None, ''add_corner_stagger''),
             (arg_add_user_area a \<noteq> None, ''add_user_area''),
             (arg_add_mask a \<noteq> None, ''add_mask''),
             (arg_varname a \<noteq> None, ''varname''),
             (arg_coord_names a \<noteq> None \<and> arg_coord_names a \<noteq> Some [], ''coord_names'')]"
  obtain ws where "forE ?xs (warn_ignored ''from file'') (g\<lparr>max_index := map int32 mi\<rparr>, w)
       = (Inr (), g\<lparr>max_index := map int32 mi\<rparr>, w\<lparr>warnings := warnings w @ ws\<rparr>)"
    using forE_warn_ignored by blast
  then have "init_mode a (g, w) =
           (Inr False, g\<lparr>max_index := map int32 mi\<rparr>, w\<lparr>warnings := warnings w @ ws\<rparr>)"
    using assms unfolding init_mode_def
    by (simp only: option.case run_thenE run_assignE run_returnE prod.case sum.case)
  then show ?thesis by blast
qed

lemma create_in_memory_result:
  assumes "create_in_memory E a (g, w) = (Inr u, g', w')"
  shows "rank g' = length (max_index g) \<and> ndims g' = length (max_index g) \<and>
         max_index g' = max_index g \<and> type_g g' = type_g g \<and>
         (num_peri_dims g = 0 \<or> num_peri_dims g = 1) \<and>
         (num_peri_dims g = 1 \<longrightarrow> arg_periodic_dim a = None \<longrightarrow>
            periodic_dim g' = Some 0 \<and> pole_dim g' = Some 1)"
  using assms unfolding create_in_memory_def
  by (auto simp: run split: if_splits option.splits sum.splits prod.splits)


lemma Grid_in_memory_steps:
  assumes mi: "arg_max_index a = Some mi"
    and run: "Grid E a w = (Inr g, w')"
  shows "\<exists>ws g2 w2 g3 w3 g4 w4 g5.
     create_in_memory E a
        (with_attrs a (blank\<lparr>max_index := map int32 mi\<rparr>), w\<lparr>warnings := warnings w @ ws\<rparr>)
       = (Inr (), g2, w2) \<and>
     whenE (arg_staggerloc a \<noteq> None)
        (bindE (add_coords E (arg_staggerloc a) None False) (\<lambda>_. returnE ()))
        (with_lists a g2, w2) = (Inr (), g3, w3) \<and>
     whenE (truthy (arg_add_user_area a))
        (bindE (add_item E AREA (Some (Scalar CENTER)) False) (\<lambda>_. returnE ()))
        (g3, w3) = (Inr (), g4, w4) \<and>
     whenE (truthy (arg_add_mask a))
        (bindE (add_item E MASK (Some (Scalar CENTER)) False) (\<lambda>_. returnE ()))
        (g4, w4) = (Inr (), g5, w') \<and>
     g = g5\<lparr>finalized := Some False\<rparr>"
proof -
  obtain ws where m: "init_mode a (blank, w) =
      (Inr False, blank\<lparr>max_index := map int32 mi\<rparr>, w\<lparr>warnings := warnings w @ ws\<rparr>)"
    using init_mode_in_memory [OF mi] by blast
  from run obtain u where b: "init_body E a (blank, w) = (Inr u, g, w')"
    by (auto simp: Grid_def split: prod.splits sum.splits)
  have "thenE (init_attrs a)
          (bindE (thenE (create_in_memory E a) (returnE (arg_staggerloc a))) (\<lambda>stagger_arg.
           thenE (init_lists a)
          (thenE (whenE (stagger_arg \<noteq> None)
                    (bindE (add_coords E stagger_arg None False) (\<lambda>_. returnE ())))
          (thenE (whenE (truthy (arg_add_user_area a))
                    (bindE (add_item E AREA (Some (Scalar CENTER)) False) (\<lambda>_. returnE ())))
          (thenE (whenE (truthy (arg_add_mask a))
                    (bindE (add_item E MASK (Some (Scalar CENTER)) False) (\<lambda>_. returnE ())))
                 (assignE (finalized_update (\<lambda>_. Some False))))))))
          (blank\<lparr>max_index := map int32 mi\<rparr>, w\<lparr>warnings := warnings w @ ws\<rparr>)
        = (Inr u, g, w')"
    using b m unfolding init_body_def by (simp add: run_bindE)
  then show ?thesis
    unfolding init_attrs_def init_lists_def
    apply (simp add: bindE_Inr thenE_Inr run_assignE run_returnE)
    apply (elim exE conjE)
    apply (intro exI conjI)
        apply assumption+
    apply (rule sym)
    apply assumption
    done
qed


lemma Grid_in_memory_keeps:
  assumes mi: "arg_max_index a = Some mi"
    and run: "Grid E a w = (Inr g, w')"
    and lf: "listfree I"
  shows "\<exists>ws g2 w2 g5.
     create_in_memory E a
        (with_attrs a (blank\<lparr>max_index := map int32 mi\<rparr>), w\<lparr>warnings := warnings w @ ws\<rparr>)
       = (Inr (), g2, w2) \<and>
     g = g5\<lparr>finalized := Some False\<rparr> \<and>
     (I (with_lists a g2) \<longrightarrow> I g5)"
proof -
  obtain ws g2 w2 g3 w3 g4 w4 g5 where
    c: "create_in_memory E a
        (with_attrs a (blank\<lparr>max_index := map int32 mi\<rparr>), w\<lparr>warnings := warnings w @ ws\<rparr>)
       = (Inr (), g2, w2)" and
    s3: "whenE (arg_staggerloc a \<noteq> None)
        (bindE (add_coords E (arg_staggerloc a) None False) (\<lambda>_. returnE ()))
        (with_lists a g2, w2) = (Inr (), g3, w3)" and
    s4: "whenE (truthy (arg_add_user_area a))
        (bindE (add_item E AREA (Some (Scalar CENTER)) False) (\<lambda>_. returnE ()))
        (g3, w3) = (Inr (), g4, w4)" and
    s5: "whenE (truthy (arg_add_mask a))
        (bindE (add_item E MASK (Some (Scalar CENTER)) False) (\<lambda>_. returnE ()))
        (g4, w4) = (Inr (), g5, w')" and
    g: "g = g5\<lparr>finalized := Some False\<rparr>"
    using Grid_in_memory_steps [OF mi run] by blast
  have k3: "keeps I (whenE (arg_staggerloc a \<noteq> None)
        (bindE (add_coords E (arg_staggerloc a) None False) (\<lambda>_. returnE ())))"
    by (intro keeps_basic lf_add_coords lf)
  have k4: "\<And>item c. keeps I (whenE c
        (bindE (add_item E item (Some (Scalar CENTER)) False) (\<lambda>_. returnE ())))"
    by (intro keeps_basic lf_add_item lf)
  have "I (with_lists a g2) \<Longrightarrow> I g5"
    using keepsD [OF k4 s5] keepsD [OF k4 s4] keepsD [OF k3 s3] by blast
  with c g show ?thesis by blast
qed

section \<open>Periodic and pole dimension\<close>

text \<open>
  Claim C10.  When an in-memory Grid is constructed with \<^verbatim>\<open>num_peri_dims=1\<close> and
  \<^verbatim>\<open>periodic_dim\<close> left \<^verbatim>\<open>None\<close>, the constructed Grid has \<^verbatim>\<open>periodic_dim == 0\<close> and
  \<^verbatim>\<open>pole_dim == 1\<close> (and so neither the \<open>1\<close> nor the \<open>2\<close> of the docstring), whatever
  the other arguments are.
\<close>

theorem Grid_one_periodic_defaults:
  assumes "arg_max_index a = Some mi"
    and "arg_num_peri_dims a = Some 1"
    and "arg_periodic_dim a = None"
    and "Grid E a w = (Inr g, w')"
  shows "periodic_dim g = Some 0 \<and> pole_dim g = Some 1"
proof -
  have lf: "listfree (\<lambda>g. periodic_dim g = Some 0 \<and> pole_dim g = Some 1)"
    by (simp add: listfree_def)
  obtain ws g2 w2 g5 where
    c: "create_in_memory E a
        (with_attrs a (blank\<lparr>max_index := map int32 mi\<rparr>), w\<lparr>warnings := warnings w @ ws\<rparr>)
       = (Inr (), g2, w2)" and
    g: "g = g5\<lparr>finalized := Some False\<rparr>" and
    k: "periodic_dim (with_lists a g2) = Some 0 \<and> pole_dim (with_lists a g2) = Some 1
         \<longrightarrow> periodic_dim g5 = Some 0 \<and> pole_dim g5 = Some 1"
    using Grid_in_memory_keeps [OF assms(1) assms(4) lf] by blast
  have "periodic_dim g2 = Some 0 \<and> pole_dim g2 = Some 1"
    using create_in_memory_result [OF c] assms(2,3) by (simp add: with_attrs_def)
  then show ?thesis using k g by (simp add: with_lists_def)
qed

theorem Grid_one_periodic_defaults_witness:
  "arg_max_index ((in_memory_args [4, 4])\<lparr>arg_num_peri_dims := Some 1\<rparr>) = Some [4, 4] \<and>
   arg_num_peri_dims ((in_memory_args [4, 4])\<lparr>arg_num_peri_dims := Some 1\<rparr>) = Some 1 \<and>
   arg_periodic_dim ((in_memory_args [4, 4])\<lparr>arg_num_peri_dims := Some 1\<rparr>) = None \<and>
   (case Grid serial_esmp ((in_memory_args [4, 4])\<lparr>arg_num_peri_dims := Some 1\<rparr>) world0 of
      (Inr g, w) \<Rightarrow> periodic_dim g = Some 0 \<and> pole_dim g = Some 1
    | (Inl e, w) \<Rightarrow> False)"
proof -
  obtain r w where
    r: "Grid serial_esmp ((in_memory_args [4, 4])\<lparr>arg_num_peri_dims := Some 1\<rparr>) world0 = (r, w)"
    by (cases "Grid serial_esmp ((in_memory_args [4, 4])\<lparr>arg_num_peri_dims := Some 1\<rparr>) world0")
  have "\<exists>g. r = Inr g"
    using r
    by (auto simp: Grid_def init_body_def init_mode_def init_attrs_def init_lists_def
        with_attrs_def with_lists_def create_in_memory_def in_memory_args_def run
        warn_ignored_def truthy_def serial_esmp_def world0_def blank_def
        split: prod.splits sum.splits)
  then obtain g where g: "r = Inr g" by blast
  show ?thesis
    using Grid_one_periodic_defaults
            [of "(in_memory_args [4, 4])\<lparr>arg_num_peri_dims := Some 1\<rparr>" "[4, 4]"
                serial_esmp world0 g w] r g
    by (simp add: in_memory_args_def)
qed

section \<open>Python indexing\<close>

lemma py_index_lt: "py_index n i = Some k \<Longrightarrow> k < n"
  by (auto simp: py_index_def split: if_splits)

lemma py_index_nat: "k < n \<Longrightarrow> py_index n (int k) = Some k"
  by (simp add: py_index_def)

lemma py_index_nonneg: "0 \<le> i \<Longrightarrow> py_index n i = Some k \<Longrightarrow> i = int k"
  by (auto simp: py_index_def split: if_splits)

lemma getitem_Inr:
  "getitem_list xs i = Inr v \<longleftrightarrow> (\<exists>k. py_index (length xs) i = Some k \<and> xs ! k = v)"
  by (auto simp: getitem_list_def split: option.splits)

lemma setitem_Inr:
  "setitem_list xs i v = Inr ys \<longleftrightarrow> (\<exists>k. py_index (length xs) i = Some k \<and> ys = xs[k := v])"
  by (auto simp: setitem_list_def split: option.splits)

lemma getitem_Inl:
  "getitem_list xs i = Inl e \<longleftrightarrow> py_index (length xs) i = None \<and> e = IndexError"
  by (auto simp: getitem_list_def split: option.splits)

lemma setitem_Inl:
  "setitem_list xs i v = Inl e \<longleftrightarrow> py_index (length xs) i = None \<and> e = IndexError"
  by (auto simp: setitem_list_def split: option.splits)

lemma setitem_length: "setitem_list xs i v = Inr ys \<Longrightarrow> length ys = length xs"
  by (auto simp: setitem_Inr)

lemma setitem_get:
  assumes "setitem_list xs i v = Inr ys"
  shows "getitem_list ys i = Inr v"
proof -
  from assms obtain k where k: "py_index (length xs) i = Some k" and ys: "ys = xs[k := v]"
    by (auto simp: setitem_Inr)
  from k have "k < length xs" by (rule py_index_lt)
  with k ys show ?thesis by (simp add: getitem_Inr)
qed

lemma run_setcoord:
  "setcoord s d v (g, w) = (r, g', w') \<Longrightarrow>
     (\<exists>e. r = Inl e \<and> g' = g \<and> w' = w) \<or>
     (\<exists>k j. py_index (length (coords g)) s = Some k \<and>
            py_index (length (coords g ! k)) d = Some j \<and> r = Inr () \<and> w' = w \<and>
            g' = g\<lparr>coords := (coords g)[k := (coords g ! k)[j := v]]\<rparr>)"
  by (auto simp: setcoord_def run getitem_Inr setitem_Inr getitem_Inl setitem_Inl split: sum.splits)

lemma coord_of_Inr:
  "coord_of g s d = Inr x \<longleftrightarrow>
     (\<exists>k j. py_index (length (coords g)) s = Some k \<and>
            py_index (length (coords g ! k)) d = Some j \<and> coords g ! k ! j = x)"
  by (auto simp: coord_of_def getitem_Inr getitem_Inl split: sum.splits)

lemma run_getcoord:
  "getcoord s d (g, w) = (case coord_of g s d of Inl e \<Rightarrow> (Inl e, g, w) | Inr v \<Rightarrow> (Inr v, g, w))"
  by (auto simp: getcoord_def coord_of_def run split: sum.splits)

lemma allocated_iff: "allocated g s d \<longleftrightarrow> (\<exists>v. coord_of g s d = Inr (Some v))"
  by (auto simp: allocated_def split: sum.splits option.splits)

lemma allocated_setcoord_same:
  assumes "setcoord s d (Some v) (g, w) = (Inr u, g', w')"
  shows "allocated g' s d"
proof -
  from run_setcoord [OF assms] obtain k j where
    k: "py_index (length (coords g)) s = Some k" and
    j: "py_index (length (coords g ! k)) d = Some j" and
    g': "g' = g\<lparr>coords := (coords g)[k := (coords g ! k)[j := Some v]]\<rparr>"
    by auto
  have "k < length (coords g)" "j < length (coords g ! k)"
    using k j by (auto dest: py_index_lt)
  with k j g' show ?thesis
    by (auto simp: allocated_iff coord_of_Inr)
qed

lemma keeps_allocated_setcoord:
  assumes "v \<noteq> None \<or> (0 \<le> d \<and> 0 \<le> d' \<and> d \<noteq> d')"
  shows "keeps (\<lambda>g. allocated g s d) (setcoord s d' v :: ('n, unit) py)"
  unfolding keeps_def
proof (intro allI impI)
  fix g and w :: "'n world" and r :: "py_error + unit" and g' and w' :: "'n world"
  assume a: "allocated g s d" and run: "setcoord s d' v (g, w) = (r, g', w')"
  from a obtain x k j where
    k: "py_index (length (coords g)) s = Some k" and
    j: "py_index (length (coords g ! k)) d = Some j" and
    x: "coords g ! k ! j = Some x"
    by (auto simp: allocated_iff coord_of_Inr)
  from run_setcoord [OF run] show "allocated g' s d"
  proof (elim disjE exE conjE)
    fix e assume "g' = g" with a show ?thesis by simp
  next
    fix k' j'
    assume k': "py_index (length (coords g)) s = Some k'"
      and j': "py_index (length (coords g ! k')) d' = Some j'"
      and g': "g' = g\<lparr>coords := (coords g)[k' := (coords g ! k')[j' := v]]\<rparr>"
    from k k' have kk: "k' = k" by simp
    have klt: "k < length (coords g)" using k by (rule py_index_lt)
    have jlt: "j < length (coords g ! k)" using j by (rule py_index_lt)
    show ?thesis
    proof (cases "j' = j")
      case True
      with assms j j' kk have "v \<noteq> None"
        by (auto dest: py_index_nonneg)
      then obtain y where "v = Some y" by auto
      with True g' kk k j klt jlt show ?thesis
        by (auto simp: allocated_iff coord_of_Inr)
    next
      case False
      with g' kk k j x klt jlt show ?thesis
        by (auto simp: allocated_iff coord_of_Inr)
    qed
  qed
qed


section \<open>Adding coordinates twice\<close>

lemma fill_cases:
  "fill a v (g, w) = (r, g', w') \<Longrightarrow>
     g' = g \<and> ((a = None \<and> r = Inl TypeError \<and> w' = w) \<or> (\<exists>x y. a = Some x \<and> r = Inr (Some y)))"
  by (auto simp: fill_def run split: option.splits ndarray.splits)

lemma keeps_store_filled:
  assumes sc: "\<And>v. keeps I (setcoord s d (Some v) :: ('n, unit) py)"
  shows "keeps I (bindE (fill a x) (\<lambda>a'. setcoord s d a' :: ('n, unit) py))"
  unfolding keeps_def
proof (intro allI impI)
  fix g and w :: "'n world" and r :: "py_error + unit" and g' and w' :: "'n world"
  assume I: "I g" and run: "bindE (fill a x) (\<lambda>a'. setcoord s d a') (g, w) = (r, g', w')"
  obtain r1 g1 w1 where f: "fill a x (g, w) = (r1, g1, w1)"
    by (cases "fill a x (g, w)") auto
  from fill_cases [OF f] have g1: "g1 = g" and
    c: "(a = None \<and> r1 = Inl TypeError \<and> w1 = w) \<or> (\<exists>x y. a = Some x \<and> r1 = Inr (Some y))"
    by auto
  from c show "I g'"
  proof
    assume "a = None \<and> r1 = Inl TypeError \<and> w1 = w"
    with run f g1 have "g' = g" by (simp add: run_bindE)
    with I show ?thesis by simp
  next
    assume "\<exists>x y. a = Some x \<and> r1 = Inr (Some y)"
    then obtain y where "r1 = Inr (Some y)" by auto
    with run f g1 have "setcoord s d (Some y) (g, w1) = (r, g', w')" by (simp add: run_bindE)
    from keepsD [OF sc this I] show ?thesis .
  qed
qed

lemma keeps_fill_coord:
  assumes "\<And>v. keeps I (setcoord s d (Some v) :: ('n, unit) py)"
  shows "keeps I (fill_coord s d :: ('n, unit) py)"
  unfolding fill_coord_def
  by (intro keeps_bindE keeps_getcoord keeps_store_filled assms)

lemma keeps_zero_coord:
  assumes "\<And>v. keeps I (setcoord s d (Some v) :: ('n, unit) py)"
  shows "keeps I (zero_coord s d :: ('n, unit) py)"
  unfolding zero_coord_def
  by (intro keeps_basic assms)

lemma keeps_link_coord_buffer:
  assumes "\<And>d v. keeps I (setcoord s d (Some v) :: ('n, unit) py)" and "keeps I (set_has_corners s :: ('n, unit) py)"
  shows "keeps I (link_coord_buffer (E :: 'n esmp) d s)"
  unfolding link_coord_buffer_def
  by (intro keeps_basic lf_GridGetCoordBounds assms)

lemma keeps_link_1D:
  assumes "\<And>d v. keeps I (setcoord s d (Some v) :: ('n, unit) py)" and "\<And>v. keeps I (setcoord s 2 v :: ('n, unit) py)"
    and "keeps I (set_has_corners s :: ('n, unit) py)"
  shows "keeps I (link_coord_buffer_1Dcoords (E :: 'n esmp) s)"
  unfolding link_coord_buffer_1Dcoords_def
  by (intro keeps_basic lf_GridGetCoordBounds lf_axis_view assms)

lemma keeps_allocate_coords:
  assumes sc: "\<And>d v. keeps I (setcoord s d (Some v) :: ('n, unit) py)" and sc2: "\<And>v. keeps I (setcoord s 2 v :: ('n, unit) py)"
    and hc: "keeps I (set_has_corners s :: ('n, unit) py)"
    and vb: "keeps I (verify_grid_bounds (E :: 'n esmp) s)"
  shows "keeps I (allocate_coords E s ff)"
  unfolding allocate_coords_def
  by (intro keeps_basic keeps_zero_coord keeps_fill_coord keeps_link_coord_buffer keeps_link_1D
        sc sc2 hc vb)

lemma coordfree_allocated: "coordfree (\<lambda>g. allocated g s d)"
  by (simp add: coordfree_def allocated_def coord_of_def)

lemma cf_corners: "coordfree I \<Longrightarrow> keeps I (set_has_corners s)"
  unfolding set_has_corners_def
  by (intro keeps_whenE keeps_assignE) (simp add: coordfree_def)

lemma cf_setslot:
  "coordfree I \<Longrightarrow> keeps I (setslot lower_bounds lower_bounds_update i v)"
  "coordfree I \<Longrightarrow> keeps I (setslot upper_bounds upper_bounds_update i v)"
  "coordfree I \<Longrightarrow> keeps I (setslot size_g size_g_update i v)"
  "coordfree I \<Longrightarrow> keeps I (setslot mask_g mask_g_update i w)"
  "coordfree I \<Longrightarrow> keeps I (setslot area area_update i w)"
  "coordfree I \<Longrightarrow> keeps I (setslot staggerloc staggerloc_update i b)"
  by (rule keeps_setslot, simp add: coordfree_def)+

lemma cf_verify: "coordfree I \<Longrightarrow> keeps I (verify_grid_bounds E s)"
  unfolding verify_grid_bounds_def
  by (intro keeps_basic lf_GridGetCoordBounds cf_setslot) 

lemma thenE_InrE:
  assumes "thenE m k s = (Inr y, s')"
  obtains g1 w1 where "m s = (Inr (), g1, w1)" and "k (g1, w1) = (Inr y, s')"
  using assms by (auto simp: thenE_Inr)

lemma bindE_InrE:
  assumes "bindE m f s = (Inr y, s')"
  obtains x g1 w1 where "m s = (Inr x, g1, w1)" and "f x (g1, w1) = (Inr y, s')"
  using assms by (auto simp: bindE_Inr)

lemma keepsD2: "m (g, w) = (r, g', w') \<Longrightarrow> keeps I m \<Longrightarrow> I g \<Longrightarrow> I g'"
  by (rule keepsD)

lemma zero_coord_allocated:
  assumes "zero_coord s d (g, w) = (Inr u, g', w')"
  shows "allocated g' s d"
  using assms unfolding zero_coord_def
  by (auto simp: bindE_Inr run_liftE run_selfE run_getslot split: sum.splits
           dest: allocated_setcoord_same)

lemma allocate_coords_allocated:
  assumes "allocate_coords E s ff (g, w) = (Inr u, g', w')"
  shows "allocated g' s 0"
proof -
  let ?I = "\<lambda>g. allocated g s 0"
  have sc: "\<And>d v. keeps ?I (setcoord s d (Some v) :: ('n, unit) py)"
    by (rule keeps_allocated_setcoord) simp
  have sc2: "\<And>v. keeps ?I (setcoord s 2 v :: ('n, unit) py)"
    by (rule keeps_allocated_setcoord) simp
  have hc: "keeps ?I (set_has_corners s :: ('n, unit) py)"
    by (rule cf_corners [OF coordfree_allocated])
  show ?thesis
    using assms unfolding allocate_coords_def
    apply (elim thenE_InrE [where m = "verify_grid_bounds E s"])
    apply (elim thenE_InrE [where m = "zero_coord s 0"])
    apply (drule zero_coord_allocated)
    apply (erule keepsD2 [where I = ?I and g' = g'])
     apply (intro keeps_basic keeps_zero_coord keeps_fill_coord keeps_link_coord_buffer
        keeps_link_1D sc sc2 hc)
    apply assumption
    done
qed

lemma add_coords_step_allocated:
  assumes "add_coords_step E ff s (g, w) = (Inr u, g', w')"
  shows "allocated g' s 0"
proof (cases "allocated g s 0")
  case True
  then obtain v where "coord_of g s 0 = Inr (Some v)" by (auto simp: allocated_iff)
  with assms have "g' = g"
    unfolding add_coords_step_def by (simp add: run_bindE run_getcoord run_warn)
  with True show ?thesis by simp
next
  case False
  with assms obtain g1 w1 g2 w2 where
    a: "allocate_coords E s ff (g1, w1) = (Inr (), g2, w2)" and
    f: "setslot staggerloc staggerloc_update s True (g2, w2) = (Inr u, g', w')"
    unfolding add_coords_step_def
    by (auto simp: bindE_Inr thenE_Inr run_getcoord allocated_iff split: sum.splits if_splits)
  have "keeps (\<lambda>g. allocated g s 0) (setslot staggerloc staggerloc_update s True :: ('n, unit) py)"
    by (rule cf_setslot [OF coordfree_allocated])
  from keepsD [OF this f allocate_coords_allocated [OF a]] show ?thesis .
qed

lemma forE_single: "forE [x] body = body x"
proof
  fix s
  show "forE [x] body s = body x s"
    by (cases "body x s") (auto simp: run split: sum.splits)
qed

lemma add_coords_single:
  assumes "stagger_list sa = [s]"
  shows "add_coords E sa cd ff =
           thenE (add_coords_step E ff s)
             (case cd of None \<Rightarrow> returnE None | Some d \<Rightarrow> getcoord s d)"
  using assms unfolding add_coords_def
  by (cases cd) (simp_all add: Let_def forE_single del: forE.simps)

text \<open>
  Claim C3.  Let \<^verbatim>\<open>add_coords\<close> be called with one stagger location \<open>s\<close> (a scalar, a
  one-element list, or nothing for the default) and return.  Then the same call made again
  returns the same value, appends the warning \<^verbatim>\<open>This coordinate has already been added.\<close>
  and changes nothing else: the Grid (coordinate views and \<^verbatim>\<open>staggerloc\<close> flags included)
  is the same object state, and so are the native state, the cells of every buffer and
  the trace of native calls.
\<close>

theorem add_coords_twice:
  assumes "stagger_list sa = [s]"
    and "add_coords E sa cd ff (g, w) = (Inr r, g1, w1)"
  shows "add_coords E sa cd ff' (g1, w1) =
           (Inr r, g1, w1\<lparr>warnings := warnings w1 @ [''This coordinate has already been added.'']\<rparr>)"
proof -
  let ?ret = "case cd of None \<Rightarrow> returnE None | Some d \<Rightarrow> getcoord s d"
  let ?w = "w1\<lparr>warnings := warnings w1 @ [''This coordinate has already been added.'']\<rparr>"
  from assms obtain g2 w2 where
    st: "add_coords_step E ff s (g, w) = (Inr (), g2, w2)" and
    rt: "?ret (g2, w2) = (Inr r, g1, w1)"
    by (auto simp: add_coords_single thenE_Inr)
  have same: "g1 = g2" "w1 = w2"
    using rt by (auto simp: run_returnE run_getcoord split: option.splits sum.splits)
  from add_coords_step_allocated [OF st] same obtain v where
    v: "coord_of g1 s 0 = Inr (Some v)" by (auto simp: allocated_iff)
  have "?ret (g1, ?w) = (Inr r, g1, ?w)"
    using rt same by (auto simp: run_returnE run_getcoord split: option.splits sum.splits)
  then show ?thesis
    using v unfolding add_coords_single [OF assms(1)] add_coords_step_def
    by (simp add: Let_def run_thenE run_bindE run_getcoord run_warn run_returnE)
qed


theorem add_coords_twice_witness:
  "stagger_list (Some (Scalar 0)) = [0] \<and>
   (case Grid serial_esmp (in_memory_args [2, 2]) world0 of
      (Inr g, w) \<Rightarrow>
        (case add_coords serial_esmp (Some (Scalar 0)) (Some 0) False (g, w) of
           (Inr r, g1, w1) \<Rightarrow>
             add_coords serial_esmp (Some (Scalar 0)) (Some 0) True (g1, w1) =
               (Inr r, g1,
                w1\<lparr>warnings := warnings w1 @ [''This coordinate has already been added.'']\<rparr>)
         | (Inl e, s1) \<Rightarrow> False)
    | (Inl e, w) \<Rightarrow> False)"
proof -
  have sl: "stagger_list (Some (Scalar 0)) = [0]"
    by (simp add: stagger_list_def)
  have ok: "case Grid serial_esmp (in_memory_args [2, 2]) world0 of
      (Inr g, w) \<Rightarrow> returned (add_coords serial_esmp (Some (Scalar 0)) (Some 0) False (g, w))
    | (Inl e, w) \<Rightarrow> False"
    by code_simp
  then obtain g w where g: "Grid serial_esmp (in_memory_args [2, 2]) world0 = (Inr g, w)"
    by (auto split: prod.splits sum.splits)
  with ok obtain r g1 w1 where
    a: "add_coords serial_esmp (Some (Scalar 0)) (Some 0) False (g, w) = (Inr r, g1, w1)"
    by (cases "add_coords serial_esmp (Some (Scalar 0)) (Some 0) False (g, w)")
       (auto simp: returned_def split: sum.splits)
  show ?thesis
    using add_coords_twice [OF sl a, of True] sl g a by simp
qed

section \<open>Coordinate allocation is complete\<close>

lemma run_selfE_iff: "selfE f (g, w) = (r, s') \<longleftrightarrow> r = Inr (f g) \<and> s' = (g, w)"
  by (auto simp: run_selfE)

lemma allocate_coords_steps:
  assumes "allocate_coords E s ff (g, w) = (Inr u, g', w')"
  shows "\<exists>g1 w1 g2 w2 g3 w3 g4 w4 g5 w5.
     verify_grid_bounds E s (g, w) = (Inr (), g1, w1) \<and>
     zero_coord s 0 (g1, w1) = (Inr (), g2, w2) \<and>
     zero_coord s 1 (g2, w2) = (Inr (), g3, w3) \<and>
     whenE (rank g3 = 3) (zero_coord s 2) (g3, w3) = (Inr (), g4, w4) \<and>
     (if ndims g4 = rank g3 \<or> ndims g4 = 0 then
              forE [0 ..< rank g3] (\<lambda>xyz. link_coord_buffer E xyz s)
            else if ndims g4 < rank g3 then
              (if \<not> ndims g4 = 1 then raiseE ValueError else link_coord_buffer_1Dcoords E s)
            else returnE ()) (g4, w4) = (Inr (), g5, w5) \<and>
     whenE (\<not> ff)
             (thenE (fill_coord s 0)
             (thenE (fill_coord s 1)
                    (whenE (rank g3 = 3) (fill_coord s 2)))) (g5, w5) = (Inr u, g', w')"
  using assms unfolding allocate_coords_def
  by (clarsimp simp: thenE_Inr bindE_Inr run_selfE_iff)


lemma not_None_iff: "not_None r \<longleftrightarrow> (\<exists>v. r = Inr (Some v))"
  by (auto simp: not_None_def split: sum.splits option.splits)

lemma all_of_Inr: "all_of x = Inr b \<longleftrightarrow> (\<exists>xs. x = Some xs \<and> b = np_all xs)"
  by (auto simp: all_of_def split: option.splits)

lemma verify_bounded:
  assumes "verify_grid_bounds E s (g, w) = (Inr u, g', w')"
  shows "bounded g' s"
proof (cases "getitem_list (lower_bounds g) s = Inr None")
  case True
  with assms obtain lb ub l1 u1 sz z1 where
    l1: "setitem_list (lower_bounds g) s (Some lb) = Inr l1" and
    u1: "setitem_list (upper_bounds g) s (Some ub) = Inr u1" and
    z1: "setitem_list (size_g g) s (Some sz) = Inr z1" and
    g': "g' = g\<lparr>lower_bounds := l1, upper_bounds := u1, size_g := z1\<rparr>"
    unfolding verify_grid_bounds_def GridGetCoordBounds_def
    by (auto simp: run split: sum.splits option.splits prod.splits if_splits)
  show ?thesis
    using setitem_get [OF l1] setitem_get [OF u1] setitem_get [OF z1] g'
    by (simp add: bounded_def not_None_def)
next
  case False
  with assms have "g' = g \<and> bounded g s"
    unfolding verify_grid_bounds_def GridGetCoordBounds_def
    by (auto simp: run bounded_def not_None_iff all_of_Inr
             split: sum.splits option.splits prod.splits if_splits)
  then show ?thesis by simp
qed


lemma keeps_allocated_some:
  "keeps (\<lambda>g. allocated g s d) (setcoord s d' (Some v) :: ('n, unit) py)"
  by (rule keeps_allocated_setcoord) simp

lemma keeps_allocated_corners: "keeps (\<lambda>g. allocated g s d) (set_has_corners s' :: ('n, unit) py)"
  by (rule cf_corners [OF coordfree_allocated])

lemma link_allocated:
  assumes "link_coord_buffer E d s (g, w) = (Inr u, g', w')"
  shows "allocated g' s (int d)"
proof -
  from assms obtain v g1 w1 g0 w0 where
    a: "setcoord s (int d) (Some v) (g0, w0) = (Inr (), g1, w1)" and
    b: "set_has_corners s (g1, w1) = (Inr u, g', w')"
    unfolding link_coord_buffer_def
    by (clarsimp simp: thenE_Inr bindE_Inr split: prod.splits)
  from keepsD [OF keeps_allocated_corners b allocated_setcoord_same [OF a]] show ?thesis .
qed

lemma keeps_allocated_link:
  "keeps (\<lambda>g. allocated g s d0) (link_coord_buffer (E :: 'n esmp) d s)"
  by (intro keeps_link_coord_buffer keeps_allocated_some keeps_allocated_corners)

lemma links_allocated:
  assumes "forE ds (\<lambda>xyz. link_coord_buffer E xyz s) (g, w) = (Inr u, g', w')"
  shows "\<forall>d \<in> set ds. allocated g' s (int d)"
  using assms
proof (induction ds arbitrary: g w)
  case Nil
  show ?case by simp
next
  case (Cons x xs)
  from Cons.prems obtain g1 w1 where
    a: "link_coord_buffer E x s (g, w) = (Inr (), g1, w1)" and
    b: "forE xs (\<lambda>xyz. link_coord_buffer E xyz s) (g1, w1) = (Inr u, g', w')"
    by (auto simp: thenE_Inr)
  have "keeps (\<lambda>g. allocated g s (int x)) (forE xs (\<lambda>xyz. link_coord_buffer E xyz s))"
    by (intro keeps_forE keeps_allocated_link)
  from keepsD [OF this b link_allocated [OF a]] Cons.IH [OF b]
  show ?case by simp
qed

lemma keeps_all:
  assumes "\<And>d. keeps (I d) m"
  shows "keeps (\<lambda>g. \<forall>d \<in> D. I d g) m"
  unfolding keeps_def
proof (intro allI impI ballI)
  fix g w r g' w' d
  assume "\<forall>d\<in>D. I d g" and "m (g, w) = (r, g', w')" and "d \<in> D"
  then show "I d g'" using keepsD [OF assms] by blast
qed

lemma keeps_bounded_coords:
  "keeps (\<lambda>g. bounded g s) (setcoord s' d v :: ('n, unit) py)"
  "keeps (\<lambda>g. bounded g s) (set_has_corners s' :: ('n, unit) py)"
  "keeps (\<lambda>g. bounded g s) (setslot staggerloc staggerloc_update s' b :: ('n, unit) py)"
    apply (rule keeps_setcoord, simp add: bounded_def)
   apply (simp add: set_has_corners_def, intro keeps_whenE keeps_assignE, simp add: bounded_def)
  apply (rule keeps_setslot, simp add: bounded_def)
  done

lemma keeps_rank_coords:
  "listfree (\<lambda>g. rank g = r \<and> ndims g = n)"
  by (simp add: listfree_def)

lemma allocate_coords_populates:
  assumes run: "allocate_coords E s ff (g, w) = (Inr u, g', w')"
    and nd: "ndims g = rank g \<or> ndims g = 0"
  shows "(\<forall>d < rank g'. allocated g' s (int d)) \<and> bounded g' s \<and> rank g' = rank g"
proof -
  let ?R = "\<lambda>g'. rank g' = rank g \<and> ndims g' = ndims g"
  have lf: "listfree ?R" by (simp add: listfree_def)
  obtain g1 w1 g2 w2 g3 w3 g4 w4 g5 w5 where
    v: "verify_grid_bounds E s (g, w) = (Inr (), g1, w1)" and
    z0: "zero_coord s 0 (g1, w1) = (Inr (), g2, w2)" and
    z1: "zero_coord s 1 (g2, w2) = (Inr (), g3, w3)" and
    z2: "whenE (rank g3 = 3) (zero_coord s 2) (g3, w3) = (Inr (), g4, w4)" and
    lk: "(if ndims g4 = rank g3 \<or> ndims g4 = 0 then
              forE [0 ..< rank g3] (\<lambda>xyz. link_coord_buffer E xyz s)
            else if ndims g4 < rank g3 then
              (if \<not> ndims g4 = 1 then raiseE ValueError else link_coord_buffer_1Dcoords E s)
            else returnE ()) (g4, w4) = (Inr (), g5, w5)" and
    fl: "whenE (\<not> ff)
             (thenE (fill_coord s 0)
             (thenE (fill_coord s 1)
                    (whenE (rank g3 = 3) (fill_coord s 2)))) (g5, w5) = (Inr u, g', w')"
    using allocate_coords_steps [OF run] by blast
  have kz2: "\<And>I. (\<And>d v. keeps I (setcoord s d (Some v) :: ('n, unit) py)) \<Longrightarrow>
      keeps I (whenE (rank g3 = 3) (zero_coord s 2 :: ('n, unit) py))"
    by (intro keeps_whenE keeps_zero_coord)
  have kfl: "\<And>I. (\<And>d v. keeps I (setcoord s d (Some v) :: ('n, unit) py)) \<Longrightarrow>
      keeps I (whenE (\<not> ff)
             (thenE (fill_coord s 0)
             (thenE (fill_coord s 1)
                    (whenE (rank g3 = 3) (fill_coord s 2 :: ('n, unit) py)))))"
    by (intro keeps_whenE keeps_thenE keeps_fill_coord)
  have R1: "?R g1" using keepsD [OF lf_verify [OF lf] v] by simp
  have R2: "?R g2" using keepsD [OF lf_zero_coord [OF lf] z0 R1] .
  have R3: "?R g3" using keepsD [OF lf_zero_coord [OF lf] z1 R2] .
  have R4: "?R g4" using keepsD [OF kz2 [of ?R, OF lf_setcoord [OF lf]] z2 R3] .
  from lk nd R3 R4 have
    lk': "forE [0 ..< rank g] (\<lambda>xyz. link_coord_buffer E xyz s) (g4, w4) = (Inr (), g5, w5)"
    by auto
  have "keeps ?R (forE [0 ..< rank g] (\<lambda>xyz. link_coord_buffer E xyz s))"
    by (intro keeps_forE lf_link_coord_buffer lf)
  from keepsD [OF this lk' R4] have R5: "?R g5" .
  have R': "?R g'" using keepsD [OF kfl [of ?R, OF lf_setcoord [OF lf]] fl R5] .
  have B1: "bounded g1 s" using verify_bounded [OF v] .
  let ?B = "\<lambda>g. bounded g s"
  have B2: "bounded g2 s"
    using keepsD [OF keeps_zero_coord [of ?B, OF keeps_bounded_coords(1)] z0 B1] .
  have B3: "bounded g3 s"
    using keepsD [OF keeps_zero_coord [of ?B, OF keeps_bounded_coords(1)] z1 B2] .
  have B4: "bounded g4 s"
    using keepsD [OF kz2 [of ?B, OF keeps_bounded_coords(1)] z2 B3] .
  have "keeps (\<lambda>g. bounded g s) (forE [0 ..< rank g] (\<lambda>xyz. link_coord_buffer E xyz s))"
    by (intro keeps_forE keeps_link_coord_buffer keeps_bounded_coords)
  from keepsD [OF this lk' B4] have B5: "bounded g5 s" .
  have B': "bounded g' s"
    using keepsD [OF kfl [of ?B, OF keeps_bounded_coords(1)] fl B5] .
  have A5: "\<forall>d \<in> {..< rank g}. allocated g5 s (int d)"
    using links_allocated [OF lk'] by simp
  have "keeps (\<lambda>g'. \<forall>d \<in> {..< rank g}. allocated g' s (int d))
         (whenE (\<not> ff)
             (thenE (fill_coord s 0)
             (thenE (fill_coord s 1)
                    (whenE (rank g3 = 3) (fill_coord s 2 :: ('n, unit) py)))))"
    by (intro keeps_all kfl keeps_allocated_some)
  from keepsD [OF this fl A5] have "\<forall>d \<in> {..< rank g}. allocated g' s (int d)" .
  with B' R' show ?thesis by simp
qed


lemma GridAddCoord_grid:
  "GridAddCoord E s (g, w) = (r, g', w') \<Longrightarrow> g' = g"
  by (auto simp: GridAddCoord_def run)

lemma add_coords_step_populates:
  assumes run: "add_coords_step E ff s (g, w) = (Inr u, g', w')"
    and nd: "ndims g = rank g \<or> ndims g = 0"
    and st: "\<not> allocated g s 0 \<or> populated g s"
  shows "populated g' s"
proof (cases "allocated g s 0")
  case True
  then obtain v where "coord_of g s 0 = Inr (Some v)" by (auto simp: allocated_iff)
  with run have "g' = g"
    unfolding add_coords_step_def by (simp add: run_bindE run_getcoord run_warn)
  with True st show ?thesis by simp
next
  case False
  with run obtain g0 w0 g1 w1 g2 w2 where
    c: "whenE (\<not> ff) (GridAddCoord E s) (g0, w0) = (Inr (), g1, w1)" and g0: "g0 = g" and
    a: "allocate_coords E s ff (g1, w1) = (Inr (), g2, w2)" and
    f: "setslot staggerloc staggerloc_update s True (g2, w2) = (Inr u, g', w')"
    unfolding add_coords_step_def
    by (auto simp: bindE_Inr thenE_Inr run_getcoord allocated_iff split: sum.splits if_splits)
  from c g0 have g1: "g1 = g"
    by (auto simp: whenE_Inr dest: GridAddCoord_grid split: if_splits)
  from allocate_coords_populates [OF a] nd g1 have
    A: "\<forall>d < rank g. allocated g2 s (int d)" and B: "bounded g2 s" and R: "rank g2 = rank g"
    by auto
  from f obtain fl where fl: "setitem_list (staggerloc g2) s True = Inr fl"
    and g': "g' = g2\<lparr>staggerloc := fl\<rparr>"
    by (auto simp: run_setslot split: sum.splits)
  from A B R g' setitem_get [OF fl] show ?thesis
    by (simp add: populated_def list_all_iff allocated_def coord_of_def bounded_def)
qed

lemma keeps_flags_verify:
  "keeps (\<lambda>g. Q (staggerloc g) (coords g)) (verify_grid_bounds E s)"
  unfolding verify_grid_bounds_def
  by (intro keeps_basic lf_GridGetCoordBounds keeps_setslot; simp)

lemma keeps_flags_add_item:
  "keeps (\<lambda>g. Q (staggerloc g) (coords g)) (add_item E item sa ff)"
  unfolding add_item_def add_item_step_def allocate_items_def link_item_buffer_def
    fill_slot_def GridAddItem_def Let_def
  by (intro keeps_basic lf_GridGetCoordBounds keeps_flags_verify keeps_setslot; simp)

text \<open>
  A Grid as the in-memory constructor returns it when no \<^verbatim>\<open>staggerloc\<close> is requested has
  coordinate arrays of the rank of the Grid and no coordinate array at any stagger
  location: every first \<^verbatim>\<open>add_coords\<close> on it allocates.
\<close>

lemma unallocated_with_lists:
  assumes "coords g = map (\<lambda>b. map (\<lambda>a. None) [0 ..< n]) [0 ..< m]"
  shows "\<not> allocated g s d"
  using assms
  by (auto simp: allocated_def coord_of_def getitem_list_def dest!: py_index_lt
           split: sum.splits option.splits)

lemma Grid_fresh_unallocated:
  assumes mi: "arg_max_index a = Some mi"
    and ns: "arg_staggerloc a = None"
    and ok: "Grid E a w = (Inr g, w')"
  shows "ndims g = rank g \<and> \<not> allocated g s 0"
proof -
  obtain ws g2 w2 g3 w3 g4 w4 g5 where
    c: "create_in_memory E a
        (with_attrs a (blank\<lparr>max_index := map int32 mi\<rparr>), w\<lparr>warnings := warnings w @ ws\<rparr>)
       = (Inr (), g2, w2)" and
    s3: "whenE (arg_staggerloc a \<noteq> None)
        (bindE (add_coords E (arg_staggerloc a) None False) (\<lambda>_. returnE ()))
        (with_lists a g2, w2) = (Inr (), g3, w3)" and
    s4: "whenE (truthy (arg_add_user_area a))
        (bindE (add_item E AREA (Some (Scalar CENTER)) False) (\<lambda>_. returnE ()))
        (g3, w3) = (Inr (), g4, w4)" and
    s5: "whenE (truthy (arg_add_mask a))
        (bindE (add_item E MASK (Some (Scalar CENTER)) False) (\<lambda>_. returnE ()))
        (g4, w4) = (Inr (), g5, w')" and
    g: "g = g5\<lparr>finalized := Some False\<rparr>"
    using Grid_in_memory_steps [OF mi ok] by blast
  let ?G = "with_lists a g2"
  from s3 ns have g3: "g3 = ?G" by (simp add: run_whenE)
  have r2: "rank ?G = length mi \<and> ndims ?G = length mi"
    using create_in_memory_result [OF c] by (simp add: with_attrs_def with_lists_def)
  have lf: "listfree (\<lambda>h. rank h = length mi \<and> ndims h = length mi)"
    by (simp add: listfree_def)
  have k4: "\<And>item c. keeps (\<lambda>h. rank h = length mi \<and> ndims h = length mi) (whenE c
        (bindE (add_item E item (Some (Scalar CENTER)) False) (\<lambda>_. returnE ())))"
    by (intro keeps_basic lf_add_item lf)
  have r5: "rank g5 = length mi \<and> ndims g5 = length mi"
    using keepsD [OF k4 s5 keepsD [OF k4 s4]] r2 g3 by simp
  have kc: "\<And>item c. keeps (\<lambda>h. coords h = coords ?G) (whenE c
        (bindE (add_item E item (Some (Scalar CENTER)) False) (\<lambda>_. returnE ())))"
    by (intro keeps_basic keeps_flags_add_item [of "\<lambda>fl cs. cs = coords ?G"])
  have "coords g5 = coords ?G"
    using keepsD [OF kc s5 keepsD [OF kc s4]] g3 by simp
  with g have "coords g = map (\<lambda>b. map (\<lambda>a. None) [0 ..< rank g2]) [0 ..< 2 ^ rank g2]"
    by (simp add: with_lists_def)
  from unallocated_with_lists [OF this] r5 g show ?thesis by simp
qed

text \<open>
  Claim C9, amended.  Let \<^verbatim>\<open>add_coords\<close> be called with one stagger location \<open>s\<close> on a
  Grid whose coordinate arrays have the rank of the Grid (\<^verbatim>\<open>ndims == rank\<close> or
  \<^verbatim>\<open>ndims == 0\<close>, the case that is not the one-dimensional one), and let it return.

  \<^item> If \<^verbatim>\<open>coords[s][0]\<close> was \<^verbatim>\<open>None\<close>, so that the call allocates (as on the Grid of
    \<open>Grid_fresh_unallocated\<close>), or if \<open>s\<close> was populated already, then afterwards
    \<^verbatim>\<open>coords[s][d]\<close> is an array for every \<open>d\<close> below the rank, \<^verbatim>\<open>lower_bounds[s]\<close>,
    \<^verbatim>\<open>upper_bounds[s]\<close> and \<^verbatim>\<open>size[s]\<close> are set, and \<^verbatim>\<open>staggerloc[s]\<close> is \<^verbatim>\<open>True\<close>.

  \<^item> If \<^verbatim>\<open>coords[s][0]\<close> was set, the call leaves the Grid as it found it (lines 634-635
    only warn): whatever of \<open>s\<close> was missing before the call is missing after it.
\<close>

theorem add_coords_populates:
  assumes sl: "stagger_list sa = [s]"
    and ok: "add_coords E sa cd ff (g, w) = (Inr r, g', w')"
    and nd: "ndims g = rank g \<or> ndims g = 0"
  shows "(\<not> allocated g s 0 \<or> populated g s \<longrightarrow> populated g' s) \<and>
         (allocated g s 0 \<longrightarrow> g' = g)"
proof -
  from sl ok obtain g2 w2 where
    st2: "add_coords_step E ff s (g, w) = (Inr (), g2, w2)" and
    rt: "(case cd of None \<Rightarrow> returnE None | Some d \<Rightarrow> getcoord s d) (g2, w2) = (Inr r, g', w')"
    by (auto simp: add_coords_single thenE_Inr)
  have same: "g' = g2"
    using rt by (auto simp: run_returnE run_getcoord split: option.splits sum.splits)
  have "g2 = g" if "allocated g s 0"
  proof -
    from that obtain v where "coord_of g s 0 = Inr (Some v)" by (auto simp: allocated_iff)
    with st2 show ?thesis
      unfolding add_coords_step_def by (simp add: run_bindE run_getcoord run_warn)
  qed
  moreover have "populated g2 s" if "\<not> allocated g s 0 \<or> populated g s"
    using add_coords_step_populates [OF st2 nd that] .
  ultimately show ?thesis using same by simp
qed

theorem add_coords_populates_witness:
  "stagger_list (Some (Several [3])) = [3] \<and>
   (case Grid serial_esmp (in_memory_args [2, 2, 2]) world0 of
      (Inr g, w) \<Rightarrow>
        (ndims g = rank g \<or> ndims g = 0) \<and> \<not> allocated g 3 0 \<and>
        (case add_coords serial_esmp (Some (Several [3])) None False (g, w) of
           (Inr r, g1, w1) \<Rightarrow>
             populated g1 3 \<and> allocated g1 3 0 \<and>
             (case add_coords serial_esmp (Some (Several [3])) None False (g1, w1) of
                (Inr r2, g2, w2) \<Rightarrow> g2 = g1 \<and> populated g2 3
              | (Inl e, s2) \<Rightarrow> False)
         | (Inl e, s1) \<Rightarrow> False)
    | (Inl e, w) \<Rightarrow> False)"
proof -
  have sl: "stagger_list (Some (Several [3])) = [3]"
    by (simp add: stagger_list_def)
  have ev: "case Grid serial_esmp (in_memory_args [2, 2, 2]) world0 of
      (Inr g, w) \<Rightarrow> (ndims g = rank g \<or> ndims g = 0) \<and> \<not> allocated g 3 0 \<and>
         (case add_coords serial_esmp (Some (Several [3])) None False (g, w) of
            (Inr r, g1, w1) \<Rightarrow>
              (ndims g1 = rank g1 \<or> ndims g1 = 0) \<and> allocated g1 3 0 \<and>
              returned (add_coords serial_esmp (Some (Several [3])) None False (g1, w1))
          | (Inl e, s1) \<Rightarrow> False)
    | (Inl e, w) \<Rightarrow> False"
    by code_simp
  then obtain g w where g: "Grid serial_esmp (in_memory_args [2, 2, 2]) world0 = (Inr g, w)"
    by (auto split: prod.splits sum.splits)
  with ev obtain r g1 w1 where
    nd: "ndims g = rank g \<or> ndims g = 0" and na: "\<not> allocated g 3 0" and
    a: "add_coords serial_esmp (Some (Several [3])) None False (g, w) = (Inr r, g1, w1)" and
    nd1: "ndims g1 = rank g1 \<or> ndims g1 = 0" and al1: "allocated g1 3 0" and
    rt: "returned (add_coords serial_esmp (Some (Several [3])) None False (g1, w1))"
    by (auto split: prod.splits sum.splits)
  from rt obtain r2 g2 w2 where
    b: "add_coords serial_esmp (Some (Several [3])) None False (g1, w1) = (Inr r2, g2, w2)"
    by (cases "add_coords serial_esmp (Some (Several [3])) None False (g1, w1)")
       (auto simp: returned_def split: sum.splits)
  have p1: "populated g1 3"
    using add_coords_populates [OF sl a nd] na by simp
  have "g2 = g1 \<and> populated g2 3"
    using add_coords_populates [OF sl b nd1] al1 p1 by simp
  with sl g a b nd na al1 p1 show ?thesis by simp
qed

text \<open>
  Claim C9 as it is stated, evaluated: it does not hold of every \<^verbatim>\<open>add_coords\<close> that
  returns.  A Grid is created in memory from \<^verbatim>\<open>max_index = [4, 4]\<close> on a native side whose
  \<^verbatim>\<open>ESMP_GridGetCoordPtr\<close> fails.  The first \<^verbatim>\<open>add_coords(CENTER)\<close> raises from
  \<^verbatim>\<open>_link_coord_buffer_\<close>, after lines 855-858 have stored the two \<^verbatim>\<open>np.zeros\<close> arrays in
  \<^verbatim>\<open>coords[CENTER]\<close> and before line 645 sets the flag; nothing is rolled back.  The second
  \<^verbatim>\<open>add_coords(CENTER)\<close> finds \<^verbatim>\<open>coords[CENTER][0]\<close> set, warns and returns, and
  \<^verbatim>\<open>staggerloc[CENTER]\<close> is still \<^verbatim>\<open>False\<close>.
\<close>

theorem add_coords_retry_unpopulated:
  "case Grid unlinked_esmp (in_memory_args [4, 4]) world0 of
     (Inr g, w) \<Rightarrow>
       (case add_coords unlinked_esmp (Some (Scalar CENTER)) None False (g, w) of
          (Inl e, g1, w1) \<Rightarrow>
            e = NativeError \<and> ndims g1 = rank g1 \<and>
            (case add_coords unlinked_esmp (Some (Scalar CENTER)) None False (g1, w1) of
               (Inr r, g2, w2) \<Rightarrow>
                 \<not> populated g2 CENTER \<and> getitem_list (staggerloc g2) CENTER = Inr False
             | (Inl e2, s2) \<Rightarrow> False)
        | (Inr r, s1) \<Rightarrow> False)
   | (Inl e, w) \<Rightarrow> False"
  by code_simp


section \<open>Verification of cached bounds\<close>

text \<open>
  Claim C8, evaluated.  A Grid is created in memory from \<^verbatim>\<open>max_index = [4, 4]\<close> with its
  coordinates at \<^verbatim>\<open>CENTER\<close>, which caches the bounds \<open>[0, 0]\<close> and \<open>[4, 4]\<close> and the size
  \<open>[4, 4]\<close>.  Then the native side changes, so that it reports the upper bound \<open>[9, 9]\<close>
  for the same grid.  \<^verbatim>\<open>_verify_grid_bounds_(CENTER)\<close> returns all the same: each assertion
  compares \<^verbatim>\<open>.all()\<close> of the cached array with \<^verbatim>\<open>.all()\<close> of the fresh one, two truth
  values, and not the arrays.
\<close>

theorem verify_grid_bounds_misses_drift:
  "case Grid serial_esmp ((in_memory_args [4, 4])\<lparr>arg_staggerloc := Some (Scalar CENTER)\<rparr>) world0 of
     (Inr g, w) \<Rightarrow>
       getitem_list (lower_bounds g) CENTER = Inr (Some [0, 0]) \<and>
       getitem_list (upper_bounds g) CENTER = Inr (Some [4, 4]) \<and>
       getitem_list (size_g g) CENTER = Inr (Some [4, 4]) \<and>
       ESMP_GridGetCoordBounds serial_esmp (struct g) CENTER (nstate w) = Some ([0, 0], [4, 4]) \<and>
       ESMP_GridGetCoordBounds serial_esmp (struct g) CENTER [[9, 9]] = Some ([0, 0], [9, 9]) \<and>
       returned (verify_grid_bounds serial_esmp CENTER (g, w\<lparr>nstate := [[9, 9]]\<rparr>))
   | (Inl e, w) \<Rightarrow> False"
  by code_simp

text \<open>
  What the method does in full, on a location without cached bounds and on one with them,
  and the part of the claim that holds: a second verification right after a first one
  that returned returns too and changes nothing.
\<close>

lemma setitem_getD:
  "setitem_list xs i v = Inr ys \<Longrightarrow> getitem_list ys i = Inr v' \<Longrightarrow> v' = v"
  using setitem_get by fastforce

lemma run_verify_uncached:
  assumes "getitem_list (lower_bounds g) s = Inr None"
  shows "verify_grid_bounds E s (g, w) =
    (case ESMP_GridGetCoordBounds E (struct g) s (nstate w) of
       None \<Rightarrow> (Inl GridBoundsNotCreated, g, w)
     | Some (lb, ub) \<Rightarrow>
        (case setitem_list (lower_bounds g) s (Some lb) of
           Inl e \<Rightarrow> (Inl e, g, w)
         | Inr l1 \<Rightarrow>
            (case setitem_list (upper_bounds g) s (Some ub) of
               Inl e \<Rightarrow> (Inl e, g\<lparr>lower_bounds := l1\<rparr>, w)
             | Inr u1 \<Rightarrow>
                (case np_sub ub lb of
                   Inl e \<Rightarrow> (Inl e, g\<lparr>lower_bounds := l1, upper_bounds := u1\<rparr>, w)
                 | Inr sz \<Rightarrow>
                    (case setitem_list (size_g g) s (Some sz) of
                       Inl e \<Rightarrow> (Inl e, g\<lparr>lower_bounds := l1, upper_bounds := u1\<rparr>, w)
                     | Inr z1 \<Rightarrow>
                        (Inr (), g\<lparr>lower_bounds := l1, upper_bounds := u1, size_g := z1\<rparr>, w))))))"
  using assms unfolding verify_grid_bounds_def GridGetCoordBounds_def
  by (simp add: run sub_of_def setitem_get split: sum.splits option.splits prod.splits)


lemma run_verify_cached:
  assumes "getitem_list (lower_bounds g) s = Inr (Some l)"
  shows "verify_grid_bounds E s (g, w) =
    (case ESMP_GridGetCoordBounds E (struct g) s (nstate w) of
       None \<Rightarrow> (Inl NativeError, g, w)
     | Some (lb, ub) \<Rightarrow>
        if np_all l \<noteq> np_all lb then (Inl AssertionError, g, w)
        else
          (case getitem_list (upper_bounds g) s of
             Inl e \<Rightarrow> (Inl e, g, w)
           | Inr None \<Rightarrow> (Inl AttributeError, g, w)
           | Inr (Some u) \<Rightarrow>
              if np_all u \<noteq> np_all ub then (Inl AssertionError, g, w)
              else
                (case getitem_list (size_g g) s of
                   Inl e \<Rightarrow> (Inl e, g, w)
                 | Inr None \<Rightarrow> (Inl AttributeError, g, w)
                 | Inr (Some z) \<Rightarrow>
                    (case np_sub ub lb of
                       Inl e \<Rightarrow> (Inl e, g, w)
                     | Inr d \<Rightarrow>
                        if np_all z = np_all d then (Inr (), g, w)
                        else (Inl AssertionError, g, w)))))"
  using assms unfolding verify_grid_bounds_def GridGetCoordBounds_def
  by (simp add: run all_of_def split: sum.splits option.splits prod.splits)

lemma verify_world:
  "verify_grid_bounds E s (g, w) = (r, g', w') \<Longrightarrow> w' = w"
  unfolding verify_grid_bounds_def GridGetCoordBounds_def
  by (auto simp: run split: sum.splits option.splits prod.splits if_splits)

lemma verify_grid_bounds_twice:
  assumes "verify_grid_bounds E s (g, w) = (Inr u, g1, w1)"
  shows "verify_grid_bounds E s (g1, w1) = (Inr (), g1, w1)"
proof (cases "getitem_list (lower_bounds g) s")
  case (Inl e)
  with assms show ?thesis
    unfolding verify_grid_bounds_def by (simp add: run)
next
  case (Inr c)
  show ?thesis
  proof (cases c)
    case None
    with Inr have un: "getitem_list (lower_bounds g) s = Inr None" by simp
    from assms [unfolded run_verify_uncached [OF un]] obtain lb ub l1 u1 sz z1 where
      q: "ESMP_GridGetCoordBounds E (struct g) s (nstate w) = Some (lb, ub)" and
      l1: "setitem_list (lower_bounds g) s (Some lb) = Inr l1" and
      u1: "setitem_list (upper_bounds g) s (Some ub) = Inr u1" and
      sz: "np_sub ub lb = Inr sz" and
      z1: "setitem_list (size_g g) s (Some sz) = Inr z1" and
      g1: "g1 = g\<lparr>lower_bounds := l1, upper_bounds := u1, size_g := z1\<rparr>" and w1: "w1 = w"
      by (auto split: sum.splits option.splits prod.splits)
    have c: "getitem_list (lower_bounds g1) s = Inr (Some lb)"
      using setitem_get [OF l1] g1 by simp
    show ?thesis
      unfolding run_verify_cached [OF c]
      using setitem_get [OF u1] setitem_get [OF z1] g1 w1 q sz by simp
  next
    case (Some l)
    with Inr have c: "getitem_list (lower_bounds g) s = Inr (Some l)" by simp
    from assms [unfolded run_verify_cached [OF c]] have "g1 = g \<and> w1 = w"
      by (auto split: sum.splits option.splits prod.splits if_splits)
    with assms show ?thesis by (cases u) simp
  qed
qed


lemma verify_size_current:
  assumes ok: "verify_grid_bounds E s (g, w) = (Inr u, g1, w1)"
    and fresh: "getitem_list (lower_bounds g) s = Inr None \<or> size_current E g s (nstate w)"
  shows "size_current E g1 s (nstate w) \<and> struct g1 = struct g \<and> w1 = w \<and>
         mask_g g1 = mask_g g \<and> area g1 = area g"
proof (cases "getitem_list (lower_bounds g) s = Inr None")
  case True
  from ok [unfolded run_verify_uncached [OF True]] obtain lb ub l1 u1 sz z1 where
    q: "ESMP_GridGetCoordBounds E (struct g) s (nstate w) = Some (lb, ub)" and
    sz: "np_sub ub lb = Inr sz" and
    z1: "setitem_list (size_g g) s (Some sz) = Inr z1" and
    g1: "g1 = g\<lparr>lower_bounds := l1, upper_bounds := u1, size_g := z1\<rparr>" and w1: "w1 = w"
    by (auto split: sum.splits option.splits prod.splits)
  show ?thesis
    using setitem_get [OF z1] g1 w1 q sz by (simp add: size_current_def)
next
  case False
  with fresh have sc: "size_current E g s (nstate w)" by simp
  have "\<exists>l. getitem_list (lower_bounds g) s = Inr (Some l)"
  proof (cases "getitem_list (lower_bounds g) s")
    case (Inl e)
    with ok show ?thesis
      unfolding verify_grid_bounds_def by (simp add: run)
  next
    case (Inr c)
    with False show ?thesis by (cases c) auto
  qed
  then obtain l where c: "getitem_list (lower_bounds g) s = Inr (Some l)" by blast
  from ok [unfolded run_verify_cached [OF c]] have "g1 = g \<and> w1 = w"
    by (auto split: sum.splits option.splits prod.splits if_splits)
  with sc show ?thesis by simp
qed

lemma map_fill_cells:
  "map (fill_cells p n v m p) [0 ..< n] = replicate n v"
  by (simp add: fill_cells_def map_replicate_trivial [symmetric] map_upt_eqI)


section \<open>Items on a fresh Grid\<close>

lemma add_item_single:
  assumes "stagger_list sa = [s]"
  shows "add_item E item sa ff =
           thenE (add_item_step E item ff s)
             (if item = MASK then getslot mask_g s
              else if item = AREA then getslot area s
              else raiseE GridItemNotSupported)"
  using assms unfolding add_item_def
  by (simp add: Let_def forE_single del: forE.simps)

lemma link_fill_area:
  assumes l: "link_item_buffer E AREA s (g, w) = (Inr (), g1, w1)"
    and f: "fill_slot area area_update s v (g1, w1) = (Inr u, g2, w2)"
  shows "\<exists>p lb ub shp.
           ESMP_GridGetCoordBounds E (struct g) s (nstate w) = Some (lb, ub) \<and>
           np_sub ub lb = Inr shp \<and>
           getitem_list (area g2) s = Inr (Some (View p R8 shp)) \<and>
           cells_of w2 (View p R8 shp) = replicate (nat (prod_list shp)) v \<and>
           size_g g2 = size_g g \<and> nstate w2 = nstate w"
  using l f unfolding link_item_buffer_def fill_slot_def GridGetCoordBounds_def
  by (auto simp: run fill_def ndarray_from_esmf_def cells_of_def setitem_get map_fill_cells
           split: sum.splits option.splits prod.splits)

lemma link_fill_mask:
  assumes l: "link_item_buffer E MASK s (g, w) = (Inr (), g1, w1)"
    and f: "fill_slot mask_g mask_g_update s v (g1, w1) = (Inr u, g2, w2)"
  shows "\<exists>p lb ub shp.
           ESMP_GridGetCoordBounds E (struct g) s (nstate w) = Some (lb, ub) \<and>
           np_sub ub lb = Inr shp \<and>
           getitem_list (mask_g g2) s = Inr (Some (View p I4 shp)) \<and>
           cells_of w2 (View p I4 shp) = replicate (nat (prod_list shp)) v \<and>
           size_g g2 = size_g g \<and> nstate w2 = nstate w"
  using l f unfolding link_item_buffer_def fill_slot_def GridGetCoordBounds_def
  by (auto simp: run fill_def ndarray_from_esmf_def cells_of_def setitem_get map_fill_cells
           split: sum.splits option.splits prod.splits)


lemma allocate_items_area:
  assumes ok: "allocate_items E AREA s False (g, w) = (Inr u, g', w')"
    and fresh: "getitem_list (lower_bounds g) s = Inr None \<or> size_current E g s (nstate w)"
  shows "\<exists>p shp. getitem_list (area g') s = Inr (Some (View p R8 shp)) \<and>
           getitem_list (size_g g') s = Inr (Some shp) \<and>
           cells_of w' (View p R8 shp) = replicate (nat (prod_list shp)) 0"
proof -
  from ok obtain g1 w1 g2 w2 g3 w3 where
    v: "verify_grid_bounds E s (g, w) = (Inr (), g1, w1)" and
    z: "bindE (getslot size_g s) (\<lambda>sz. bindE (liftE (np_zeros sz R8)) (\<lambda>z.
          setslot area area_update s (Some z))) (g1, w1) = (Inr (), g2, w2)" and
    l: "link_item_buffer E AREA s (g2, w2) = (Inr (), g3, w3)" and
    f: "fill_slot area area_update s 0 (g3, w3) = (Inr u, g', w')"
    unfolding allocate_items_def
    by (clarsimp simp: thenE_Inr whenE_Inr)
  from verify_size_current [OF v fresh] have
    sc: "size_current E g1 s (nstate w)" and st: "struct g1 = struct g" and w1: "w1 = w"
    by auto
  from z have g2: "size_g g2 = size_g g1 \<and> struct g2 = struct g1 \<and> w2 = w1"
    by (auto simp: run split: sum.splits)
  from link_fill_area [OF l f] obtain p lb ub shp where
    q: "ESMP_GridGetCoordBounds E (struct g2) s (nstate w2) = Some (lb, ub)" and
    sh: "np_sub ub lb = Inr shp" and
    a: "getitem_list (area g') s = Inr (Some (View p R8 shp))" and
    c: "cells_of w' (View p R8 shp) = replicate (nat (prod_list shp)) 0" and
    sz: "size_g g' = size_g g2"
    by blast
  from sc q sh g2 st w1 sz have "getitem_list (size_g g') s = Inr (Some shp)"
    by (simp add: size_current_def)
  with a c show ?thesis by blast
qed

lemma allocate_items_mask:
  assumes ok: "allocate_items E MASK s False (g, w) = (Inr u, g', w')"
    and fresh: "getitem_list (lower_bounds g) s = Inr None \<or> size_current E g s (nstate w)"
  shows "\<exists>p shp. getitem_list (mask_g g') s = Inr (Some (View p I4 shp)) \<and>
           getitem_list (size_g g') s = Inr (Some shp) \<and>
           cells_of w' (View p I4 shp) = replicate (nat (prod_list shp)) 1"
proof -
  from ok obtain g1 w1 g2 w2 g3 w3 where
    v: "verify_grid_bounds E s (g, w) = (Inr (), g1, w1)" and
    z: "bindE (getslot size_g s) (\<lambda>sz. bindE (liftE (np_zeros sz I4)) (\<lambda>z.
          setslot mask_g mask_g_update s (Some z))) (g1, w1) = (Inr (), g2, w2)" and
    l: "link_item_buffer E MASK s (g2, w2) = (Inr (), g3, w3)" and
    f: "fill_slot mask_g mask_g_update s 1 (g3, w3) = (Inr u, g', w')"
    unfolding allocate_items_def
    by (clarsimp simp: thenE_Inr whenE_Inr)
  from verify_size_current [OF v fresh] have
    sc: "size_current E g1 s (nstate w)" and st: "struct g1 = struct g" and w1: "w1 = w"
    by auto
  from z have g2: "size_g g2 = size_g g1 \<and> struct g2 = struct g1 \<and> w2 = w1"
    by (auto simp: run split: sum.splits)
  from link_fill_mask [OF l f] obtain p lb ub shp where
    q: "ESMP_GridGetCoordBounds E (struct g2) s (nstate w2) = Some (lb, ub)" and
    sh: "np_sub ub lb = Inr shp" and
    a: "getitem_list (mask_g g') s = Inr (Some (View p I4 shp))" and
    c: "cells_of w' (View p I4 shp) = replicate (nat (prod_list shp)) 1" and
    sz: "size_g g' = size_g g2"
    by blast
  from sc q sh g2 st w1 sz have "getitem_list (size_g g') s = Inr (Some shp)"
    by (simp add: size_current_def)
  with a c show ?thesis by blast
qed

lemma add_item_step_allocates:
  assumes "add_item_step E item False s (g, w) = (Inr u, g', w')"
  shows "allocate_items E item s False
           (g, w\<lparr>nstate := snd (ESMP_GridAddItem E (struct g) item s (nstate w)),
                 trace := trace w @ [CallAddItem (struct g) item s]\<rparr>) = (Inr (), g', w')"
proof -
  from assms obtain g1 w1 where
    c: "GridAddItem E item s (g, w) = (Inr (), g1, w1)" and
    a: "allocate_items E item s False (g1, w1) = (Inr (), g', w')"
    unfolding add_item_step_def
    by (auto simp: bindE_Inr thenE_Inr whenE_Inr run_getslot run_returnE run_raiseE
             split: sum.splits if_splits)
  from c have "g1 = g \<and> w1 = w\<lparr>nstate := snd (ESMP_GridAddItem E (struct g) item s (nstate w)),
                 trace := trace w @ [CallAddItem (struct g) item s]\<rparr>"
    by (auto simp: GridAddItem_def run split: if_splits)
  with a show ?thesis by simp
qed

text \<open>
  Claim C5.  Let \<^verbatim>\<open>add_item\<close> be called in memory (not from file) with one stagger
  location \<open>s\<close>, such as \<^verbatim>\<open>CENTER\<close>, on a Grid that has no bounds cached for \<open>s\<close> (a
  Grid fresh from the constructor, see \<open>Grid_fresh_uncached\<close>) or whose cached size is the
  extent the native side reports after the native allocation.  If the call returns, it
  returns the array now stored in \<^verbatim>\<open>area[s]\<close> (for \<^verbatim>\<open>AREA\<close>) or \<^verbatim>\<open>mask[s]\<close> (for \<^verbatim>\<open>MASK\<close>);
  the shape of that array is \<^verbatim>\<open>size[s]\<close>, and all its cells are \<open>0\<close> for the area and
  \<open>1\<close> for the mask.
\<close>

theorem add_item_fresh:
  assumes sl: "stagger_list sa = [s]"
    and fresh: "getitem_list (lower_bounds g) s = Inr None \<or>
                size_current E g s (snd (ESMP_GridAddItem E (struct g) item s (nstate w)))"
    and ok: "add_item E item sa False (g, w) = (Inr r, g', w')"
  shows "(item = AREA \<longrightarrow>
            (case r of None \<Rightarrow> False
             | Some a \<Rightarrow>
                 getitem_list (area g') s = Inr (Some a) \<and>
                 getitem_list (size_g g') s = Inr (Some (shape_of a)) \<and>
                 cells_of w' a = replicate (nat (prod_list (shape_of a))) 0)) \<and>
         (item = MASK \<longrightarrow>
            (case r of None \<Rightarrow> False
             | Some a \<Rightarrow>
                 getitem_list (mask_g g') s = Inr (Some a) \<and>
                 getitem_list (size_g g') s = Inr (Some (shape_of a)) \<and>
                 cells_of w' a = replicate (nat (prod_list (shape_of a))) 1))"
proof (intro conjI impI)
  assume item: "item = AREA"
  let ?w = "w\<lparr>nstate := snd (ESMP_GridAddItem E (struct g) AREA s (nstate w)),
               trace := trace w @ [CallAddItem (struct g) AREA s]\<rparr>"
  from ok item sl obtain g2 w2 where
    st: "add_item_step E AREA False s (g, w) = (Inr (), g2, w2)" and
    rt: "getslot area s (g2, w2) = (Inr r, g', w')"
    by (auto simp: add_item_single thenE_Inr)
  note a = add_item_step_allocates [OF st]
  from fresh item have "getitem_list (lower_bounds g) s = Inr None \<or> size_current E g s (nstate ?w)"
    by simp
  from allocate_items_area [OF a this] rt show
    "case r of None \<Rightarrow> False
     | Some a \<Rightarrow>
         getitem_list (area g') s = Inr (Some a) \<and>
         getitem_list (size_g g') s = Inr (Some (shape_of a)) \<and>
         cells_of w' a = replicate (nat (prod_list (shape_of a))) 0"
    by (auto simp: run_getslot shape_of_def split: sum.splits)
next
  assume item: "item = MASK"
  let ?w = "w\<lparr>nstate := snd (ESMP_GridAddItem E (struct g) MASK s (nstate w)),
               trace := trace w @ [CallAddItem (struct g) MASK s]\<rparr>"
  from ok item sl obtain g2 w2 where
    st: "add_item_step E MASK False s (g, w) = (Inr (), g2, w2)" and
    rt: "getslot mask_g s (g2, w2) = (Inr r, g', w')"
    by (auto simp: add_item_single thenE_Inr)
  note a = add_item_step_allocates [OF st]
  from fresh item have "getitem_list (lower_bounds g) s = Inr None \<or> size_current E g s (nstate ?w)"
    by simp
  from allocate_items_mask [OF a this] rt show
    "case r of None \<Rightarrow> False
     | Some a \<Rightarrow>
         getitem_list (mask_g g') s = Inr (Some a) \<and>
         getitem_list (size_g g') s = Inr (Some (shape_of a)) \<and>
         cells_of w' a = replicate (nat (prod_list (shape_of a))) 1"
    by (auto simp: run_getslot shape_of_def split: sum.splits)
qed


lemma Grid_fresh_uncached:
  assumes mi: "arg_max_index a = Some mi"
    and ns: "arg_staggerloc a = None"
    and na: "\<not> truthy (arg_add_user_area a)" and nm: "\<not> truthy (arg_add_mask a)"
    and ok: "Grid E a w = (Inr g, w')"
  shows "getitem_list (lower_bounds g) CENTER = Inr None"
proof -
  obtain ws :: "string list" and g2 w2 g3 w3 g4 w4 g5 where
    s3: "whenE (arg_staggerloc a \<noteq> None)
        (bindE (add_coords E (arg_staggerloc a) None False) (\<lambda>_. returnE ()))
        (with_lists a g2, w2) = (Inr (), g3, w3)" and
    s4: "whenE (truthy (arg_add_user_area a))
        (bindE (add_item E AREA (Some (Scalar CENTER)) False) (\<lambda>_. returnE ()))
        (g3, w3) = (Inr (), g4, w4)" and
    s5: "whenE (truthy (arg_add_mask a))
        (bindE (add_item E MASK (Some (Scalar CENTER)) False) (\<lambda>_. returnE ()))
        (g4, w4) = (Inr (), g5, w')" and
    g: "g = g5\<lparr>finalized := Some False\<rparr>"
    using Grid_in_memory_steps [OF mi ok] by blast
  from s3 s4 s5 ns na nm g have "lower_bounds g = lower_bounds (with_lists a g2)"
    by (simp add: run_whenE)
  then show ?thesis
    by (simp add: with_lists_def getitem_list_def py_index_def CENTER_def)
qed

theorem add_item_fresh_witness:
  "stagger_list (Some (Scalar CENTER)) = [CENTER] \<and>
   (case Grid serial_esmp (in_memory_args [2, 2]) world0 of
      (Inr g, w) \<Rightarrow>
        getitem_list (lower_bounds g) CENTER = Inr None \<and>
        (case add_item serial_esmp AREA (Some (Scalar CENTER)) False (g, w) of
           (Inr r, g', w') \<Rightarrow>
             (case r of None \<Rightarrow> False
              | Some a \<Rightarrow>
                  getitem_list (area g') CENTER = Inr (Some a) \<and>
                  getitem_list (size_g g') CENTER = Inr (Some (shape_of a)) \<and>
                  cells_of w' a = replicate (nat (prod_list (shape_of a))) 0)
         | (Inl e, s1) \<Rightarrow> False) \<and>
        (case add_item serial_esmp MASK (Some (Scalar CENTER)) False (g, w) of
           (Inr r, g', w') \<Rightarrow>
             (case r of None \<Rightarrow> False
              | Some a \<Rightarrow>
                  getitem_list (mask_g g') CENTER = Inr (Some a) \<and>
                  getitem_list (size_g g') CENTER = Inr (Some (shape_of a)) \<and>
                  cells_of w' a = replicate (nat (prod_list (shape_of a))) 1)
         | (Inl e, s1) \<Rightarrow> False)
    | (Inl e, w) \<Rightarrow> False)"
proof -
  have sl: "stagger_list (Some (Scalar CENTER)) = [CENTER]"
    by (simp add: stagger_list_def)
  have ev: "case Grid serial_esmp (in_memory_args [2, 2]) world0 of
      (Inr g, w) \<Rightarrow>
        getitem_list (lower_bounds g) CENTER = Inr None \<and>
        returned (add_item serial_esmp AREA (Some (Scalar CENTER)) False (g, w)) \<and>
        returned (add_item serial_esmp MASK (Some (Scalar CENTER)) False (g, w))
    | (Inl e, w) \<Rightarrow> False"
    by code_simp
  then obtain g w where g: "Grid serial_esmp (in_memory_args [2, 2]) world0 = (Inr g, w)"
    by (auto split: prod.splits sum.splits)
  with ev have un: "getitem_list (lower_bounds g) CENTER = Inr None"
    and ra: "returned (add_item serial_esmp AREA (Some (Scalar CENTER)) False (g, w))"
    and rm: "returned (add_item serial_esmp MASK (Some (Scalar CENTER)) False (g, w))"
    by auto
  from ra obtain r1 g1 w1 where
    a: "add_item serial_esmp AREA (Some (Scalar CENTER)) False (g, w) = (Inr r1, g1, w1)"
    by (cases "add_item serial_esmp AREA (Some (Scalar CENTER)) False (g, w)")
       (auto simp: returned_def split: sum.splits)
  from rm obtain r2 g2 w2 where
    m: "add_item serial_esmp MASK (Some (Scalar CENTER)) False (g, w) = (Inr r2, g2, w2)"
    by (cases "add_item serial_esmp MASK (Some (Scalar CENTER)) False (g, w)")
       (auto simp: returned_def split: sum.splits)
  show ?thesis
    using add_item_fresh [OF sl disjI1 [OF un] a] add_item_fresh [OF sl disjI1 [OF un] m] sl g a m un
    by simp
qed


section \<open>Rank and stagger flags of an in-memory Grid\<close>

lemma allocated_row:
  assumes "py_index (length (coords g)) s = Some k"
  shows "allocated g s 0 = not_None (getitem_list (coords g ! k) 0)"
  using assms
  by (simp add: allocated_def not_None_def coord_of_def getitem_list_def split: option.splits)

lemma allocate_coords_frame:
  assumes ok: "allocate_coords E s ff (g, w) = (r, g', w')"
    and k: "py_index (length (coords g)) s = Some k"
  shows "staggerloc g' = staggerloc g \<and> length (coords g') = length (coords g) \<and>
         (\<forall>i < length (coords g). i \<noteq> k \<longrightarrow> coords g' ! i = coords g ! i)"
proof -
  let ?J = "\<lambda>h. staggerloc h = staggerloc g \<and> length (coords h) = length (coords g) \<and>
         (\<forall>i < length (coords g). i \<noteq> k \<longrightarrow> coords h ! i = coords g ! i)"
  have sc: "\<And>d v. keeps ?J (setcoord s d v :: ('n, unit) py)"
    unfolding keeps_def
  proof (intro allI impI)
    fix d v h and w :: "'n world" and r :: "py_error + unit" and h' and w' :: "'n world"
    assume J: "?J h" and st: "setcoord s d v (h, w) = (r, h', w')"
    from run_setcoord [OF st] show "?J h'"
    proof (elim disjE exE conjE)
      fix e assume "h' = h" with J show ?thesis by simp
    next
      fix k' j
      assume k': "py_index (length (coords h)) s = Some k'"
        and h': "h' = h\<lparr>coords := (coords h)[k' := (coords h ! k')[j := v]]\<rparr>"
      from k' J k have "k' = k" by simp
      with h' J show ?thesis by simp
    qed
  qed
  have hc: "keeps ?J (set_has_corners s :: ('n, unit) py)"
    unfolding set_has_corners_def by (intro keeps_whenE keeps_assignE) simp
  have vb: "keeps ?J (verify_grid_bounds E s)"
    by (rule keeps_flags_verify [of "\<lambda>fl cs. fl = staggerloc g \<and> length cs = length (coords g) \<and>
         (\<forall>i < length (coords g). i \<noteq> k \<longrightarrow> cs ! i = coords g ! i)"])
  have "keeps ?J (allocate_coords E s ff)"
    by (rule keeps_allocate_coords [OF sc sc hc vb])
  from keepsD [OF this ok] show ?thesis by simp
qed


lemma add_coords_step_flags:
  assumes ok: "add_coords_step E ff s (g, w) = (Inr u, g', w')" and fo: "flags_ok g"
  shows "\<exists>k. py_index (length (staggerloc g)) s = Some k \<and>
             staggerloc g' = (staggerloc g)[k := True] \<and> flags_ok g'"
proof -
  from ok obtain c where c: "coord_of g s 0 = Inr c"
    unfolding add_coords_step_def
    by (cases "coord_of g s 0") (auto simp: run_bindE run_getcoord)
  then obtain k where k: "py_index (length (coords g)) s = Some k"
    by (auto simp: coord_of_Inr)
  from fo have len: "length (staggerloc g) = length (coords g)"
    by (simp add: flags_ok_def)
  have klt: "k < length (coords g)" using k by (rule py_index_lt)
  show ?thesis
  proof (cases "allocated g s 0")
    case True
    with c obtain v where "coord_of g s 0 = Inr (Some v)" by (auto simp: allocated_iff)
    with ok have g': "g' = g"
      unfolding add_coords_step_def by (simp add: run_bindE run_getcoord run_warn)
    from True fo klt have "staggerloc g ! k = True"
      by (simp add: flags_ok_def allocated_row [OF k])
    then have "(staggerloc g)[k := True] = staggerloc g"
      by (metis list_update_id)
    with g' fo k len show ?thesis by simp
  next
    case False
    with ok obtain g0 w0 g1 w1 g2 w2 where
      ca: "whenE (\<not> ff) (GridAddCoord E s) (g0, w0) = (Inr (), g1, w1)" and g0: "g0 = g" and
      a: "allocate_coords E s ff (g1, w1) = (Inr (), g2, w2)" and
      f: "setslot staggerloc staggerloc_update s True (g2, w2) = (Inr u, g', w')"
      unfolding add_coords_step_def
      by (auto simp: bindE_Inr thenE_Inr run_getcoord allocated_iff split: sum.splits if_splits)
    from ca g0 have g1: "g1 = g"
      by (auto simp: whenE_Inr dest: GridAddCoord_grid split: if_splits)
    from allocate_coords_frame [OF a] k g1 have
      fr: "staggerloc g2 = staggerloc g" "length (coords g2) = length (coords g)"
          "\<forall>i < length (coords g). i \<noteq> k \<longrightarrow> coords g2 ! i = coords g ! i"
      by auto
    from allocate_coords_allocated [OF a] fr(2) k have
      al: "not_None (getitem_list (coords g2 ! k) 0)"
      by (simp add: allocated_row)
    from f fr(1) len k have g': "g' = g2\<lparr>staggerloc := (staggerloc g)[k := True]\<rparr>"
      by (auto simp: run_setslot setitem_Inr split: sum.splits)
    have "flags_ok g'"
      unfolding flags_ok_def
    proof (intro conjI allI impI)
      show "length (staggerloc g') = length (coords g')"
        using g' fr(2) len by simp
    next
      fix i assume "i < length (coords g')"
      with g' fr(2) have ilt: "i < length (coords g)" by simp
      show "staggerloc g' ! i = not_None (getitem_list (coords g' ! i) 0)"
      proof (cases "i = k")
        case True
        with g' al klt len show ?thesis by simp
      next
        case False
        with g' fr(3) ilt fo len show ?thesis
          by (simp add: flags_ok_def)
      qed
    qed
    with g' k len show ?thesis by simp
  qed
qed

lemma add_coords_loop_flags:
  assumes "forE sl (add_coords_step E ff) (g, w) = (Inr u, g', w')" and "flags_ok g"
  shows "flags_ok g' \<and> length (staggerloc g') = length (staggerloc g) \<and>
         (\<forall>i < length (staggerloc g).
            staggerloc g' ! i =
              (staggerloc g ! i \<or> Some i \<in> py_index (length (staggerloc g)) ` set sl))"
  using assms
proof (induction sl arbitrary: g w)
  case Nil
  then show ?case by (simp add: run_returnE)
next
  case (Cons s sl)
  from Cons.prems(1) obtain g1 w1 where
    a: "add_coords_step E ff s (g, w) = (Inr (), g1, w1)" and
    b: "forE sl (add_coords_step E ff) (g1, w1) = (Inr u, g', w')"
    by (auto simp: thenE_Inr)
  from add_coords_step_flags [OF a Cons.prems(2)] obtain k where
    k: "py_index (length (staggerloc g)) s = Some k" and
    st: "staggerloc g1 = (staggerloc g)[k := True]" and fo: "flags_ok g1"
    by blast
  from Cons.IH [OF b fo] st have
    IH: "flags_ok g'" "length (staggerloc g') = length (staggerloc g)"
        "\<forall>i < length (staggerloc g). staggerloc g' ! i =
           ((staggerloc g)[k := True] ! i \<or> Some i \<in> py_index (length (staggerloc g)) ` set sl)"
    by auto
  have "\<forall>i < length (staggerloc g). staggerloc g' ! i =
           (staggerloc g ! i \<or> Some i \<in> py_index (length (staggerloc g)) ` set (s # sl))"
  proof (intro allI impI)
    fix i assume i: "i < length (staggerloc g)"
    show "staggerloc g' ! i =
           (staggerloc g ! i \<or> Some i \<in> py_index (length (staggerloc g)) ` set (s # sl))"
    proof (cases "i = k")
      case True
      with IH(3) i k show ?thesis by auto
    next
      case False
      with IH(3) i k show ?thesis by auto
    qed
  qed
  with IH show ?case by simp
qed


lemma flags_ok_with_lists: "flags_ok (with_lists a g)"
  by (auto simp: flags_ok_def with_lists_def not_None_def getitem_list_def py_index_def
           split: option.splits)

lemma add_coords_flags:
  assumes ok: "add_coords E sa cd ff (g, w) = (Inr r, g', w')" and fo: "flags_ok g"
  shows "length (staggerloc g') = length (staggerloc g) \<and>
         (\<forall>i < length (staggerloc g).
            staggerloc g' ! i =
              (staggerloc g ! i \<or> Some i \<in> py_index (length (staggerloc g)) ` set (stagger_list sa)))"
proof -
  from ok obtain g1 w1 where
    l: "forE (stagger_list sa) (add_coords_step E ff) (g, w) = (Inr (), g1, w1)" and
    rt: "(case cd of None \<Rightarrow> returnE None
          | Some d \<Rightarrow> if length (stagger_list sa) = 1 then getcoord (hd (stagger_list sa)) d
                      else returnE None) (g1, w1) = (Inr r, g', w')"
    unfolding add_coords_def by (auto simp: Let_def thenE_Inr)
  have "keeps (\<lambda>h. h = g1) (case cd of None \<Rightarrow> returnE None
          | Some d \<Rightarrow> if length (stagger_list sa) = 1 then getcoord (hd (stagger_list sa)) d
                      else returnE None)"
    by (intro keeps_basic)
  from keepsD [OF this rt] have "g' = g1" by simp
  with add_coords_loop_flags [OF l fo] show ?thesis by simp
qed

text \<open>
  Claim C2.  Whenever an in-memory Grid is constructed from a \<^verbatim>\<open>max_index\<close> (of length 2
  or 3, or any other for which the constructor returns), its rank is the length of
  \<^verbatim>\<open>max_index\<close>, its \<^verbatim>\<open>staggerloc\<close> list has \<open>2 ^ rank\<close> flags, and a flag is \<^verbatim>\<open>True\<close>
  exactly when its position is a requested stagger location (counted from the end of
  the list when negative): all flags are \<^verbatim>\<open>False\<close> except the requested ones.
\<close>

theorem Grid_in_memory_flags:
  assumes mi: "arg_max_index a = Some mi"
    and ok: "Grid E a w = (Inr g, w')"
  shows "rank g = length mi \<and> length (staggerloc g) = 2 ^ rank g \<and>
         (\<forall>i < 2 ^ rank g.
            staggerloc g ! i = (Some i \<in> py_index (2 ^ rank g) ` set (requested a)))"
proof -
  obtain ws g2 w2 g3 w3 g4 w4 g5 where
    c: "create_in_memory E a
        (with_attrs a (blank\<lparr>max_index := map int32 mi\<rparr>), w\<lparr>warnings := warnings w @ ws\<rparr>)
       = (Inr (), g2, w2)" and
    s3: "whenE (arg_staggerloc a \<noteq> None)
        (bindE (add_coords E (arg_staggerloc a) None False) (\<lambda>_. returnE ()))
        (with_lists a g2, w2) = (Inr (), g3, w3)" and
    s4: "whenE (truthy (arg_add_user_area a))
        (bindE (add_item E AREA (Some (Scalar CENTER)) False) (\<lambda>_. returnE ()))
        (g3, w3) = (Inr (), g4, w4)" and
    s5: "whenE (truthy (arg_add_mask a))
        (bindE (add_item E MASK (Some (Scalar CENTER)) False) (\<lambda>_. returnE ()))
        (g4, w4) = (Inr (), g5, w')" and
    g: "g = g5\<lparr>finalized := Some False\<rparr>"
    using Grid_in_memory_steps [OF mi ok] by blast
  have r2: "rank g2 = length mi"
    using create_in_memory_result [OF c] by (simp add: with_attrs_def)
  let ?G = "with_lists a g2"
  have len0: "length (staggerloc ?G) = 2 ^ length mi" and all0: "\<forall>i < 2 ^ length mi. \<not> staggerloc ?G ! i"
    and rG: "rank ?G = length mi"
    using r2 by (simp_all add: with_lists_def)
  have lf: "listfree (\<lambda>h. rank h = length mi)"
    by (simp add: listfree_def)
  have k3: "keeps (\<lambda>h. rank h = length mi) (whenE (arg_staggerloc a \<noteq> None)
        (bindE (add_coords E (arg_staggerloc a) None False) (\<lambda>_. returnE ())))"
    by (intro keeps_basic lf_add_coords lf)
  have k4: "\<And>item c. keeps (\<lambda>h. rank h = length mi) (whenE c
        (bindE (add_item E item (Some (Scalar CENTER)) False) (\<lambda>_. returnE ())))"
    by (intro keeps_basic lf_add_item lf)
  have r5: "rank g5 = length mi"
    using keepsD [OF k4 s5 keepsD [OF k4 s4 keepsD [OF k3 s3 rG]]] .
  have f3: "length (staggerloc g3) = 2 ^ length mi \<and>
            (\<forall>i < 2 ^ length mi.
               staggerloc g3 ! i = (Some i \<in> py_index (2 ^ length mi) ` set (requested a)))"
  proof (cases "arg_staggerloc a")
    case None
    with s3 have "g3 = ?G" by (simp add: run_whenE)
    with None len0 all0 show ?thesis by (simp add: requested_def)
  next
    case (Some sa)
    with s3 obtain r where
      "add_coords E (Some sa) None False (?G, w2) = (Inr r, g3, w3)"
      by (auto simp: run_whenE bindE_Inr run_returnE)
    from add_coords_flags [OF this flags_ok_with_lists] len0 all0 Some
    show ?thesis by (simp add: requested_def)
  qed
  have kf: "\<And>item c. keeps (\<lambda>h. staggerloc h = staggerloc g3) (whenE c
        (bindE (add_item E item (Some (Scalar CENTER)) False) (\<lambda>_. returnE ())))"
    by (intro keeps_basic keeps_flags_add_item [of "\<lambda>fl cs. fl = staggerloc g3"])
  have "staggerloc g5 = staggerloc g3"
    using keepsD [OF kf s5 keepsD [OF kf s4]] by simp
  with f3 r5 g show ?thesis by simp
qed

theorem Grid_in_memory_flags_witness:
  "arg_max_index ((in_memory_args [2, 3, 4])\<lparr>arg_staggerloc := Some (Scalar 4)\<rparr>) = Some [2, 3, 4] \<and>
   (case Grid serial_esmp ((in_memory_args [2, 3, 4])\<lparr>arg_staggerloc := Some (Scalar 4)\<rparr>) world0 of
      (Inr g, w) \<Rightarrow>
        rank g = 3 \<and> length (staggerloc g) = 2 ^ rank g \<and>
        staggerloc g = [False, False, False, False, True, False, False, False]
    | (Inl e, w) \<Rightarrow> False)"
proof -
  let ?a = "(in_memory_args [2, 3, 4])\<lparr>arg_staggerloc := Some (Scalar 4)\<rparr>"
  have mi: "arg_max_index ?a = Some [2, 3, 4]"
    by (simp add: in_memory_args_def)
  have ev: "case Grid serial_esmp ?a world0 of
      (Inr g, w) \<Rightarrow> staggerloc g = [False, False, False, False, True, False, False, False]
    | (Inl e, w) \<Rightarrow> False"
    by code_simp
  then obtain g w where g: "Grid serial_esmp ?a world0 = (Inr g, w)"
    by (auto split: prod.splits sum.splits)
  from Grid_in_memory_flags [OF mi g]
  have "rank g = 3 \<and> length (staggerloc g) = 2 ^ rank g" by simp
  with ev g mi show ?thesis by simp
qed

end
